theory Spec2Isabelle
  imports Complex_Main "HOL-Library.Word"
begin

section \<open>Rotation conversions of torchgeometry/conversions.py\<close>

text \<open>
  The numeric model: every finite floating-point value is a real number and arithmetic is
  exact (rounding is not modelled). Where IEEE arithmetic leaves the finite numbers
  (division by zero, square root of a negative number) the result of the affected batch
  element is \<open>None\<close>: in each such place of the source that element of the returned array
  has components that are NaN or infinite. Comparisons of tensors yield byte tensors
  (0 or 1, type uint8), which is what \<open>1 - mask\<close> and \<open>mask == False\<close> in the source
  compute with.
\<close>

subsection \<open>Scalars, masks and library functions\<close>

type_synonym vec3 = "real \<times> real \<times> real"
type_synonym quat = "real \<times> real \<times> real \<times> real"
type_synonym matrix = "real list list"

definition eps :: real where
  \<comment> \<open>the default argument \<open>eps=1e-6\<close> of the batched functions\<close>
  "eps = 1 / 10 ^ 6"

definition float32_eps :: real where
  \<comment> \<open>\<open>np.finfo(np.float32).eps\<close>\<close>
  "float32_eps = 1 / 2 ^ 23"

definition byte_of :: "bool \<Rightarrow> 8 word" where
  \<comment> \<open>the byte a tensor comparison yields\<close>
  "byte_of b = (if b then 1 else 0)"

definition type_as :: "8 word \<Rightarrow> real" where
  \<comment> \<open>\<open>mask.type_as(x)\<close>: the byte as a floating-point number\<close>
  "type_as m = real (unat m)"

definition atan2 :: "real \<Rightarrow> real \<Rightarrow> real" where
  \<comment> \<open>\<open>torch.atan2\<close>, \<open>np.arctan2\<close> on finite arguments, a zero taken as +0\<close>
  "atan2 y x =
     (if 0 < x then arctan (y / x)
      else if x < 0 then (if 0 \<le> y then arctan (y / x) + pi else arctan (y / x) - pi)
      else if 0 < y then pi / 2
      else if y < 0 then - pi / 2
      else 0)"

definition smul :: "real \<Rightarrow> matrix \<Rightarrow> matrix" where
  \<comment> \<open>a mask (one number for the batch element) times a matrix\<close>
  "smul c m = map (map (\<lambda>x. c * x)) m"

definition madd :: "matrix \<Rightarrow> matrix \<Rightarrow> matrix" where
  "madd a b = map2 (map2 (+)) a b"

definition eye :: "nat \<Rightarrow> matrix" where
  \<comment> \<open>\<open>np.eye(n)\<close>, \<open>torch.eye(n)\<close>\<close>
  "eye n = map (\<lambda>i. map (\<lambda>j. if i = j then 1 else 0) [0..<n]) [0..<n]"

definition set_block3 :: "matrix \<Rightarrow> matrix \<Rightarrow> matrix" where
  \<comment> \<open>\<open>m[:3, :3] = block\<close>\<close>
  "set_block3 m block = map2 (\<lambda>row brow. brow @ drop 3 row) (take 3 m) block @ drop 3 m"

subsection \<open>Axis-angle to rotation matrix\<close>

definition set_entry :: "matrix \<Rightarrow> nat \<Rightarrow> nat \<Rightarrow> real \<Rightarrow> matrix" where
  \<comment> \<open>\<open>m[i, j] = v\<close> with both indices in range\<close>
  "set_entry m i j v = m[i := (m ! i)[j := v]]"

definition dot :: "real list \<Rightarrow> real list \<Rightarrow> real" where
  \<comment> \<open>\<open>a.dot(b)\<close> of two one-dimensional arrays of equal length\<close>
  "dot a b = sum_list (map2 (*) a b)"

text \<open>
  The exceptions a call can raise. \<open>ValueError\<close>, \<open>NotImplementedError\<close> and
  \<open>AssertionError\<close> carry the message the source gives them; \<open>NumpyValueError\<close> is a
  ValueError raised inside numpy (operands of \<open>dot\<close> that are not aligned, the truth value of
  an array of several entries), whose message is not modelled.
\<close>

datatype error =
    ValueError string
  | NotImplementedError string
  | NameError string
  | AssertionError string
  | IndexError
  | NumpyValueError

definition angle_axis_to_rotation_matrix_numpy :: "real list \<Rightarrow> error + matrix" where
  \<comment> \<open>\<open>angle_axis\<close> is a one-dimensional array of any length; reading index 0, 1 or 2
      of a shorter one raises IndexError in either branch\<close>
  "angle_axis_to_rotation_matrix_numpy angle_axis =
     (let k_one = 1;
          theta2 = dot angle_axis angle_axis;
          rotation_matrix = eye 4
      in if length angle_axis < 3 then Inl IndexError
         else if theta2 > float32_eps then
           (let theta = sqrt theta2;
                wx = angle_axis ! 0 / theta;
                wy = angle_axis ! 1 / theta;
                wz = angle_axis ! 2 / theta;
                cos_theta = cos theta;
                sin_theta = sin theta;
                m = set_entry rotation_matrix 0 0 (cos_theta + wx * wx * (k_one - cos_theta));
                m = set_entry m 1 0 (wz * sin_theta + wx * wy * (k_one - cos_theta));
                m = set_entry m 2 0 (- wy * sin_theta + wx * wz * (k_one - cos_theta));
                m = set_entry m 0 1 (wx * wy * (k_one - cos_theta) - wz * sin_theta);
                m = set_entry m 1 1 (cos_theta + wy * wy * (k_one - cos_theta));
                m = set_entry m 2 1 (wx * sin_theta + wy * wz * (k_one - cos_theta));
                m = set_entry m 0 2 (wy * sin_theta + wx * wz * (k_one - cos_theta));
                m = set_entry m 1 2 (- wx * sin_theta + wy * wz * (k_one - cos_theta));
                m = set_entry m 2 2 (cos_theta + wz * wz * (k_one - cos_theta))
            in Inr m)
         else
           (let m = set_entry rotation_matrix 0 0 k_one;
                m = set_entry m 1 0 (angle_axis ! 2);
                m = set_entry m 2 0 (- (angle_axis ! 1));
                m = set_entry m 0 1 (- (angle_axis ! 2));
                m = set_entry m 1 1 k_one;
                m = set_entry m 2 1 (angle_axis ! 0);
                m = set_entry m 0 2 (angle_axis ! 1);
                m = set_entry m 1 2 (- (angle_axis ! 0));
                m = set_entry m 2 2 k_one
            in Inr m))"

definition compute_rotation_matrix :: "vec3 \<Rightarrow> real \<Rightarrow> matrix" where
  "compute_rotation_matrix angle_axis theta2 =
     (case angle_axis of (ax, ay, az) \<Rightarrow>
        let k_one = 1;
            theta = sqrt theta2;
            wx = ax / (theta + eps);
            wy = ay / (theta + eps);
            wz = az / (theta + eps);
            cos_theta = cos theta;
            sin_theta = sin theta;
            r00 = cos_theta + wx * wx * (k_one - cos_theta);
            r10 = wz * sin_theta + wx * wy * (k_one - cos_theta);
            r20 = - wy * sin_theta + wx * wz * (k_one - cos_theta);
            r01 = wx * wy * (k_one - cos_theta) - wz * sin_theta;
            r11 = cos_theta + wy * wy * (k_one - cos_theta);
            r21 = wx * sin_theta + wy * wz * (k_one - cos_theta);
            r02 = wy * sin_theta + wx * wz * (k_one - cos_theta);
            r12 = - wx * sin_theta + wy * wz * (k_one - cos_theta);
            r22 = cos_theta + wz * wz * (k_one - cos_theta)
        in [[r00, r01, r02], [r10, r11, r12], [r20, r21, r22]])"

definition compute_rotation_matrix_taylor :: "vec3 \<Rightarrow> matrix" where
  "compute_rotation_matrix_taylor angle_axis =
     (case angle_axis of (rx, ry, rz) \<Rightarrow>
        let k_one = 1
        in [[k_one, - rz, ry], [rz, k_one, - rx], [- ry, rx, k_one]])"

definition angle_axis_to_rotation_matrix_row :: "vec3 \<Rightarrow> matrix" where
  \<comment> \<open>what the batched function computes for one row of the batch\<close>
  "angle_axis_to_rotation_matrix_row angle_axis =
     (case angle_axis of (ax, ay, az) \<Rightarrow>
        let theta2 = ax * ax + ay * ay + az * az;
            rotation_matrix_normal = compute_rotation_matrix angle_axis theta2;
            rotation_matrix_taylor = compute_rotation_matrix_taylor angle_axis;
            mask = byte_of (theta2 > eps);
            mask_pos = type_as mask;
            mask_neg = type_as (byte_of (mask = 0));
            rotation_matrix = eye 4
        in set_block3 rotation_matrix
             (madd (smul mask_pos rotation_matrix_normal)
                   (smul mask_neg rotation_matrix_taylor)))"

definition angle_axis_to_rotation_matrix_torch :: "vec3 list \<Rightarrow> matrix list" where
  \<comment> \<open>every tensor operation of the source acts on each row of the batch alone\<close>
  "angle_axis_to_rotation_matrix_torch angle_axis =
     map angle_axis_to_rotation_matrix_row angle_axis"

subsection \<open>Rotation matrix to quaternion\<close>

definition vscale :: "real \<Rightarrow> real list \<Rightarrow> real list" where
  "vscale c v = map (\<lambda>x. x * c) v"

definition vadd :: "real list \<Rightarrow> real list \<Rightarrow> real list" where
  "vadd a b = map2 (+) a b"

definition norm_list :: "real list \<Rightarrow> real" where
  \<comment> \<open>\<open>np.linalg.norm\<close>, \<open>torch.norm\<close> of a vector\<close>
  "norm_list v = sqrt (sum_list (map (\<lambda>x. x * x) v))"

definition transpose12 :: "matrix \<Rightarrow> nat \<Rightarrow> nat \<Rightarrow> real" where
  \<comment> \<open>\<open>rmat_t = torch.transpose(rotation_matrix, 1, 2)\<close>, read at \<open>rmat_t[:, i, j]\<close>\<close>
  "transpose12 m i j = m ! j ! i"

definition mask_d2 :: "matrix \<Rightarrow> 8 word" where
  "mask_d2 m = (let rmat_t = transpose12 m in byte_of (rmat_t 2 2 < eps))"

definition mask_d0_d1 :: "matrix \<Rightarrow> 8 word" where
  "mask_d0_d1 m = (let rmat_t = transpose12 m in byte_of (rmat_t 0 0 > rmat_t 1 1))"

definition mask_d0_nd1 :: "matrix \<Rightarrow> 8 word" where
  "mask_d0_nd1 m = (let rmat_t = transpose12 m in byte_of (rmat_t 0 0 < - rmat_t 1 1))"

definition t0 :: "matrix \<Rightarrow> real" where
  "t0 m = (let rmat_t = transpose12 m in 1 + rmat_t 0 0 - rmat_t 1 1 - rmat_t 2 2)"

definition q0 :: "matrix \<Rightarrow> real list" where
  "q0 m = (let rmat_t = transpose12 m in
     [rmat_t 1 2 - rmat_t 2 1, t0 m, rmat_t 0 1 + rmat_t 1 0, rmat_t 2 0 + rmat_t 0 2])"

definition t1 :: "matrix \<Rightarrow> real" where
  "t1 m = (let rmat_t = transpose12 m in 1 - rmat_t 0 0 + rmat_t 1 1 - rmat_t 2 2)"

definition q1 :: "matrix \<Rightarrow> real list" where
  "q1 m = (let rmat_t = transpose12 m in
     [rmat_t 2 0 - rmat_t 0 2, rmat_t 0 1 + rmat_t 1 0, t1 m, rmat_t 1 2 + rmat_t 2 1])"

definition t2 :: "matrix \<Rightarrow> real" where
  "t2 m = (let rmat_t = transpose12 m in 1 - rmat_t 0 0 - rmat_t 1 1 + rmat_t 2 2)"

definition q2 :: "matrix \<Rightarrow> real list" where
  "q2 m = (let rmat_t = transpose12 m in
     [rmat_t 0 1 - rmat_t 1 0, rmat_t 2 0 + rmat_t 0 2, rmat_t 1 2 + rmat_t 2 1, t2 m])"

definition t3 :: "matrix \<Rightarrow> real" where
  "t3 m = (let rmat_t = transpose12 m in 1 + rmat_t 0 0 + rmat_t 1 1 + rmat_t 2 2)"

definition q3 :: "matrix \<Rightarrow> real list" where
  "q3 m = (let rmat_t = transpose12 m in
     [t3 m, rmat_t 1 2 - rmat_t 2 1, rmat_t 2 0 - rmat_t 0 2, rmat_t 0 1 - rmat_t 1 0])"

definition mask_c0 :: "matrix \<Rightarrow> 8 word" where
  "mask_c0 m = mask_d2 m * mask_d0_d1 m"

definition mask_c1 :: "matrix \<Rightarrow> 8 word" where
  "mask_c1 m = mask_d2 m * (1 - mask_d0_d1 m)"

definition mask_c2 :: "matrix \<Rightarrow> 8 word" where
  "mask_c2 m = (1 - mask_d2 m) * mask_d0_nd1 m"

definition mask_c3 :: "matrix \<Rightarrow> 8 word" where
  "mask_c3 m = (1 - mask_d2 m) * (1 - mask_d0_nd1 m)"

definition masked_sum :: "matrix \<Rightarrow> real list" where
  \<comment> \<open>\<open>q0 * mask_c0 + q1 * mask_c1 + q2 * mask_c2 + q3 * mask_c3\<close>\<close>
  "masked_sum m =
     vadd (vadd (vadd (vscale (type_as (mask_c0 m)) (q0 m))
                      (vscale (type_as (mask_c1 m)) (q1 m)))
                (vscale (type_as (mask_c2 m)) (q2 m)))
          (vscale (type_as (mask_c3 m)) (q3 m))"

definition masked_pivot :: "matrix \<Rightarrow> real" where
  \<comment> \<open>\<open>t0_rep * mask_c0 + t1_rep * mask_c1 + t2_rep * mask_c2 + t3_rep * mask_c3\<close>, the same
      number in the four columns\<close>
  "masked_pivot m =
     t0 m * type_as (mask_c0 m) + t1 m * type_as (mask_c1 m)
       + t2 m * type_as (mask_c2 m) + t3 m * type_as (mask_c3 m)"

definition rotation_matrix_to_quaternion_row :: "matrix \<Rightarrow> real list option" where
  \<comment> \<open>one matrix of the batch; the square root of a negative pivot is NaN and the division
      by a zero one gives NaN or an infinity in every column\<close>
  "rotation_matrix_to_quaternion_row m =
     (let q = masked_sum m;
          d = masked_pivot m
      in if d \<le> 0 then None
         else Some (vscale (1 / 2) (map (\<lambda>x. x / sqrt d) q)))"

definition rotation_matrix_to_quaternion_torch :: "matrix list \<Rightarrow> real list option list" where
  "rotation_matrix_to_quaternion_torch rotation_matrix =
     map rotation_matrix_to_quaternion_row rotation_matrix"

definition rotation_matrix_to_quaternion_numpy :: "matrix \<Rightarrow> real list option" where
  \<comment> \<open>\<open>rotation_matrix\<close> is a two-dimensional array with at least three rows and columns\<close>
  "rotation_matrix_to_quaternion_numpy rotation_matrix =
     (let quaternion = [0, 0, 0, 0];
          trace = rotation_matrix ! 0 ! 0 + rotation_matrix ! 1 ! 1 + rotation_matrix ! 2 ! 2;
          filled =
            (if trace \<ge> 0 then
               (let t = sqrt (trace + 1);
                    quaternion = quaternion[0 := 0.5 * t];
                    t = 0.5 / t;
                    quaternion = quaternion[1 :=
                      (rotation_matrix ! 2 ! 1 - rotation_matrix ! 1 ! 2) * t];
                    quaternion = quaternion[2 :=
                      (rotation_matrix ! 0 ! 2 - rotation_matrix ! 2 ! 0) * t];
                    quaternion = quaternion[3 :=
                      (rotation_matrix ! 1 ! 0 - rotation_matrix ! 0 ! 1) * t]
                in Some quaternion)
             else
               (let i = 0;
                    i = (if rotation_matrix ! 1 ! 1 > rotation_matrix ! 0 ! 0 then 1 else i);
                    i = (if rotation_matrix ! 2 ! 2 > rotation_matrix ! i ! i then 2 else i);
                    j = (i + 1) mod 3;
                    k = (j + 1) mod 3;
                    radicand = rotation_matrix ! i ! i - rotation_matrix ! j ! j
                                 - rotation_matrix ! k ! k + 1
                in if radicand \<le> 0 then None
                   else
                     (let t = sqrt radicand;
                          quaternion = quaternion[i + 1 := 0.5 * t];
                          t = 0.5 / t;
                          quaternion = quaternion[0 :=
                            (rotation_matrix ! k ! j - rotation_matrix ! j ! k) * t];
                          quaternion = quaternion[j + 1 :=
                            (rotation_matrix ! j ! i + rotation_matrix ! i ! j) * t];
                          quaternion = quaternion[k + 1 :=
                            (rotation_matrix ! k ! i + rotation_matrix ! i ! k) * t]
                      in Some quaternion)))
      in case filled of
           None \<Rightarrow> None
         | Some quaternion \<Rightarrow>
             if norm_list quaternion = 0 then None
             else Some (map (\<lambda>x. x / norm_list quaternion) quaternion))"

subsection \<open>Quaternion to axis-angle\<close>

definition quaternion_to_angle_axis_numpy :: "real list \<Rightarrow> error + real list option" where
  \<comment> \<open>\<open>quaternion\<close> is a one-dimensional array; a zero norm makes the normalizer infinite
      and every product with it NaN\<close>
  "quaternion_to_angle_axis_numpy quaternion =
     (if length quaternion \<noteq> 4 then Inl (AssertionError ''Input must be a vector of length 4'')
      else if norm_list quaternion = 0 then Inr None
      else
        (let normalizer = 1 / norm_list quaternion;
             q1 = quaternion ! 1 * normalizer;
             q2 = quaternion ! 2 * normalizer;
             q3 = quaternion ! 3 * normalizer;
             sin_squared = q1 * q1 + q2 * q2 + q3 * q3;
             angle_axis = [0, 0, 0]
         in if sin_squared > 0 then
              (let sin_theta = sqrt sin_squared;
                   cos_theta = quaternion ! 0 * normalizer;
                   theta = (if cos_theta < 0 then atan2 (- sin_theta) (- cos_theta)
                            else atan2 sin_theta cos_theta);
                   two_theta = 2 * theta;
                   k = two_theta / sin_theta;
                   angle_axis = angle_axis[0 := q1 * k];
                   angle_axis = angle_axis[1 := q2 * k];
                   angle_axis = angle_axis[2 := q3 * k]
               in Inr (Some angle_axis))
            else
              (let k = 2;
                   angle_axis = angle_axis[0 := q1 * k];
                   angle_axis = angle_axis[1 := q2 * k];
                   angle_axis = angle_axis[2 := q3 * k]
               in Inr (Some angle_axis))))"

definition quaternion_to_angle_axis_row :: "quat \<Rightarrow> vec3 option" where
  \<comment> \<open>one row of the batch. A zero norm makes the normalizer infinite and the products
      NaN; a zero \<open>sin_theta\<close> makes \<open>k_pos\<close> NaN (or infinite), and its product with the
      zero mask is NaN, so \<open>k\<close> and the three results are NaN\<close>
  "quaternion_to_angle_axis_row quaternion =
     (case quaternion of (qw, qx, qy, qz) \<Rightarrow>
        if norm_list [qw, qx, qy, qz] = 0 then None
        else
          (let normalizer = 1 / norm_list [qw, qx, qy, qz];
               q1 = qx * normalizer;
               q2 = qy * normalizer;
               q3 = qz * normalizer;
               sin_squared = q1 * q1 + q2 * q2 + q3 * q3;
               mask = byte_of (sin_squared > eps);
               mask_pos = type_as (byte_of (mask = 1));
               mask_neg = type_as (byte_of (mask = 0));
               sin_theta = sqrt sin_squared;
               cos_theta = qw * normalizer;
               mask_theta = byte_of (cos_theta < eps);
               mask_theta_neg = type_as (byte_of (mask_theta = 1));
               mask_theta_pos = type_as (byte_of (mask_theta = 0));
               theta = atan2 (- sin_theta) (- cos_theta) * mask_theta_neg
                         + atan2 sin_theta cos_theta * mask_theta_pos;
               two_theta = 2 * theta
           in if sin_theta = 0 then None
              else
                (let k_pos = two_theta / sin_theta;
                     k_neg = 2;
                     k = k_neg * mask_neg + k_pos * mask_pos
                 in Some (q1 * k, q2 * k, q3 * k))))"

definition quaternion_to_angle_axis_torch :: "quat list \<Rightarrow> vec3 option list" where
  "quaternion_to_angle_axis_torch quaternion = map quaternion_to_angle_axis_row quaternion"

subsection \<open>Dispatch on the type of the argument\<close>

text \<open>
  The arguments a dispatcher can receive: a numpy array of one or two dimensions (its
  entries, row by row), a tensor of any shape (its shape and its entries in row-major
  order), or an object of another type, given by the text \<open>type(x)\<close> prints as.
\<close>

datatype pyobj =
    NdArray1 "real list"
  | NdArray2 nat nat "real list"
  | Tensor "nat list" "real list"
  | Other string

text \<open>
  What a call does: it raises, it returns an array all of whose entries are finite, or it
  returns an array with NaN or infinite entries.
\<close>

datatype outcome = Raises error | NonFinite | Returns pyobj

definition rows_of :: "nat \<Rightarrow> nat \<Rightarrow> real list \<Rightarrow> real list list" where
  \<comment> \<open>the \<open>n\<close> rows of width \<open>k\<close> of row-major data\<close>
  "rows_of n k xs = map (\<lambda>i. take k (drop (i * k) xs)) [0..<n]"

definition vec3_of :: "real list \<Rightarrow> vec3" where
  "vec3_of r = (r ! 0, r ! 1, r ! 2)"

definition quat_of :: "real list \<Rightarrow> quat" where
  "quat_of r = (r ! 0, r ! 1, r ! 2, r ! 3)"

definition list_of_vec3 :: "vec3 \<Rightarrow> real list" where
  "list_of_vec3 v = (case v of (x, y, z) \<Rightarrow> [x, y, z])"

definition unsupported :: "string \<Rightarrow> string \<Rightarrow> string \<Rightarrow> error" where
  \<comment> \<open>\<open>raise NotImplementedError('Not suported type {}'.format(type(name)))\<close> in a function
      whose only local name is \<open>param\<close>, bound to an object of type \<open>ty\<close>; the module binds
      no name \<open>rotation_matrix\<close>, \<open>angle_axis\<close> or \<open>quaternion\<close>, so looking up a name that
      is not the parameter raises NameError\<close>
  "unsupported param name ty =
     (if name = param then NotImplementedError (''Not suported type '' @ ty)
      else NameError name)"

definition angle_axis_to_rotation_matrix :: "pyobj \<Rightarrow> outcome" where
  "angle_axis_to_rotation_matrix angle_axis =
     (case angle_axis of
        NdArray1 xs \<Rightarrow>
          (case angle_axis_to_rotation_matrix_numpy xs of
             Inl e \<Rightarrow> Raises e
           | Inr m \<Rightarrow> Returns (NdArray2 4 4 (concat m)))
      | NdArray2 r c xs \<Rightarrow>
          \<comment> \<open>\<open>angle_axis.dot(angle_axis)\<close> is a matrix product: it needs a square array and
              gives one of the same shape, whose comparison with the threshold can be
              tested only when it has a single entry (an empty one counts as false);
              then the second row is read\<close>
          if r \<noteq> c then Raises NumpyValueError
          else if 2 \<le> r then Raises NumpyValueError
          else Raises IndexError
      | Tensor shape xs \<Rightarrow>
          if \<not> (length shape = 2 \<and> shape ! 1 = 3)
          then Raises (ValueError ''Input must be a two dimensional torch.Tensor.'')
          else Returns (Tensor [shape ! 0, 4, 4]
                 (concat (map concat
                    (angle_axis_to_rotation_matrix_torch
                       (map vec3_of (rows_of (shape ! 0) 3 xs))))))
      | Other ty \<Rightarrow> Raises (unsupported ''angle_axis'' ''angle_axis'' ty))"

definition rotation_matrix_to_quaternion :: "pyobj \<Rightarrow> outcome" where
  "rotation_matrix_to_quaternion rotation_matrix =
     (case rotation_matrix of
        NdArray1 xs \<Rightarrow> Raises IndexError
      | NdArray2 r c xs \<Rightarrow>
          if r < 3 \<or> c < 3 then Raises IndexError
          else (case rotation_matrix_to_quaternion_numpy (rows_of r c xs) of
                  None \<Rightarrow> NonFinite
                | Some q \<Rightarrow> Returns (NdArray1 q))
      | Tensor shape xs \<Rightarrow>
          if \<not> (length shape = 3 \<and> shape ! 1 = 4)
          then Raises (ValueError ''Input must be a three dimensional torch.Tensor.'')
          else if shape ! 2 < 3 then Raises IndexError
          else (case those (rotation_matrix_to_quaternion_torch
                       (map (rows_of 4 (shape ! 2))
                          (rows_of (shape ! 0) (4 * shape ! 2) xs))) of
                  None \<Rightarrow> NonFinite
                | Some qs \<Rightarrow> Returns (Tensor [shape ! 0, 4] (concat qs)))
      | Other ty \<Rightarrow> Raises (unsupported ''rotation_matrix'' ''rotation_matrix'' ty))"

definition quaternion_to_angle_axis :: "pyobj \<Rightarrow> outcome" where
  "quaternion_to_angle_axis quaternion =
     (case quaternion of
        NdArray1 xs \<Rightarrow>
          (case quaternion_to_angle_axis_numpy xs of
             Inl e \<Rightarrow> Raises e
           | Inr None \<Rightarrow> NonFinite
           | Inr (Some v) \<Rightarrow> Returns (NdArray1 v))
      | NdArray2 r c xs \<Rightarrow>
          \<comment> \<open>\<open>quaternion[1]\<close>, \<open>quaternion[2]\<close> and \<open>quaternion[3]\<close> are rows; with four rows
              or more \<open>sin_squared\<close> is an array of four entries, whose comparison with 0
              cannot be tested\<close>
          if c \<noteq> 4 then Raises (AssertionError ''Input must be a vector of length 4'')
          else if r < 4 then Raises IndexError
          else Raises NumpyValueError
      | Tensor shape xs \<Rightarrow>
          if \<not> (length shape = 2 \<and> shape ! 1 = 4)
          then Raises (ValueError ''Input must be a two dimensional torch.Tensor.'')
          else (case those (quaternion_to_angle_axis_torch
                       (map quat_of (rows_of (shape ! 0) 4 xs))) of
                  None \<Rightarrow> NonFinite
                | Some vs \<Rightarrow> Returns (Tensor [shape ! 0, 3] (concat (map list_of_vec3 vs))))
      | Other ty \<Rightarrow> Raises (unsupported ''quaternion'' ''rotation_matrix'' ty))"

definition rotation_matrix_to_angle_axis :: "pyobj \<Rightarrow> outcome" where
  \<comment> \<open>an array with a NaN or infinite quaternion passes the checks of the second call and
      gives NaN there too\<close>
  "rotation_matrix_to_angle_axis rotation_matrix =
     (case rotation_matrix_to_quaternion rotation_matrix of
        Raises e \<Rightarrow> Raises e
      | NonFinite \<Rightarrow> NonFinite
      | Returns quaternion \<Rightarrow> quaternion_to_angle_axis quaternion)"

subsection \<open>Reading a description of the components\<close>

definition off_diagonal :: "matrix \<Rightarrow> real list" where
  \<comment> \<open>the six off-diagonal entries of the rotation block\<close>
  "off_diagonal m = [m ! 0 ! 1, m ! 0 ! 2, m ! 1 ! 0, m ! 1 ! 2, m ! 2 ! 0, m ! 2 ! 1]"

definition sums_differences :: "matrix \<Rightarrow> real list" where
  \<comment> \<open>every sum and every difference of two off-diagonal entries\<close>
  "sums_differences m =
     concat (map (\<lambda>x. concat (map (\<lambda>y. [x + y, x - y]) (off_diagonal m))) (off_diagonal m))"

definition spec_component_form :: "matrix \<Rightarrow> real list \<Rightarrow> bool" where
  \<comment> \<open>the description "each component is a sum or difference of off-diagonal entries,
      divided by the square root of the pivot, scaled by 0.5"\<close>
  "spec_component_form m q =
     list_all (\<lambda>c. list_ex (\<lambda>s. c = s / sqrt (masked_pivot m) * (1 / 2)) (sums_differences m)) q"

subsection \<open>Quantities the properties speak about\<close>

definition sin_squared_of :: "real list \<Rightarrow> real" where
  \<comment> \<open>\<open>sin_squared\<close> of a quaternion: the squared length of its normalized vector part\<close>
  "sin_squared_of q =
     (let normalizer = 1 / norm_list q
      in (q ! 1 * normalizer) * (q ! 1 * normalizer) + (q ! 2 * normalizer) * (q ! 2 * normalizer)
           + (q ! 3 * normalizer) * (q ! 3 * normalizer))"

definition twice_vector_part :: "real list \<Rightarrow> real list" where
  \<comment> \<open>the normalized vector part times \<open>k = 2\<close>\<close>
  "twice_vector_part q =
     (let normalizer = 1 / norm_list q
      in [q ! 1 * normalizer * 2, q ! 2 * normalizer * 2, q ! 3 * normalizer * 2])"

definition is_rotation :: "matrix \<Rightarrow> bool" where
  \<comment> \<open>the rotation block is orthonormal (its transpose times itself is the identity) and has
      determinant 1\<close>
  "is_rotation m =
     (let a = m ! 0 ! 0; b = m ! 0 ! 1; c = m ! 0 ! 2;
          d = m ! 1 ! 0; e = m ! 1 ! 1; f = m ! 1 ! 2;
          g = m ! 2 ! 0; h = m ! 2 ! 1; i = m ! 2 ! 2
      in a * a + d * d + g * g = 1 \<and> b * b + e * e + h * h = 1 \<and> c * c + f * f + i * i = 1
         \<and> a * b + d * e + g * h = 0 \<and> a * c + d * f + g * i = 0 \<and> b * c + e * f + h * i = 0
         \<and> a * (e * i - f * h) - b * (d * i - f * g) + c * (d * h - e * g) = 1)"

definition normalized :: "real list \<Rightarrow> real list option" where
  \<comment> \<open>\<open>quaternion /= np.linalg.norm(quaternion)\<close>\<close>
  "normalized v = (if norm_list v = 0 then None else Some (map (\<lambda>x. x / norm_list v) v))"

definition cos_theta_of :: "real list \<Rightarrow> real" where
  \<comment> \<open>\<open>cos_theta\<close> of a quaternion: its normalized scalar part\<close>
  "cos_theta_of q = q ! 0 * (1 / norm_list q)"

definition unit_of :: "real \<Rightarrow> real list \<Rightarrow> real list" where
  \<comment> \<open>a candidate divided by the square root of its pivot and scaled by 0.5\<close>
  "unit_of t v = map (\<lambda>x. x / sqrt t * (1 / 2)) v"

definition pivots :: "matrix \<Rightarrow> (real \<times> real list) list" where
  \<comment> \<open>the four pivots with their candidates\<close>
  "pivots m = [(t0 m, q0 m), (t1 m, q1 m), (t2 m, q2 m), (t3 m, q3 m)]"

definition same_up_to_sign :: "real list \<Rightarrow> real list \<Rightarrow> bool" where
  \<comment> \<open>two quaternions that are equal or antipodal: they stand for the same rotation\<close>
  "same_up_to_sign u v = (u = v \<or> u = map uminus v)"

definition axis_angle_round_trip :: "pyobj \<Rightarrow> outcome" where
  \<comment> \<open>\<open>rotation_matrix_to_angle_axis(angle_axis_to_rotation_matrix(v))\<close>\<close>
  "axis_angle_round_trip v =
     (case angle_axis_to_rotation_matrix v of
        Raises e \<Rightarrow> Raises e
      | NonFinite \<Rightarrow> NonFinite
      | Returns m \<Rightarrow> rotation_matrix_to_angle_axis m)"

section \<open>Properties\<close>

subsection \<open>Evaluation lemmas\<close>

lemma eye4: "eye 4 = [[1, 0, 0, 0], [0, 1, 0, 0], [0, 0, 1, 0], [0, 0, 0, 1]]"
  by (simp add: eye_def upt_rec)

lemmas mask_defs = mask_c0_def mask_c1_def mask_c2_def mask_c3_def mask_d2_def mask_d0_d1_def
  mask_d0_nd1_def byte_of_def type_as_def transpose12_def

lemmas cand_defs = q0_def q1_def q2_def q3_def t0_def t1_def t2_def t3_def

lemma row_of_masks:
  "rotation_matrix_to_quaternion_row m =
     (if mask_c0 m = 1
      then (if t0 m \<le> 0 then None else Some (map (\<lambda>x. x / sqrt (t0 m) * (1 / 2)) (q0 m)))
      else if mask_c1 m = 1
      then (if t1 m \<le> 0 then None else Some (map (\<lambda>x. x / sqrt (t1 m) * (1 / 2)) (q1 m)))
      else if mask_c2 m = 1
      then (if t2 m \<le> 0 then None else Some (map (\<lambda>x. x / sqrt (t2 m) * (1 / 2)) (q2 m)))
      else (if t3 m \<le> 0 then None else Some (map (\<lambda>x. x / sqrt (t3 m) * (1 / 2)) (q3 m))))"
  by (simp add: rotation_matrix_to_quaternion_row_def masked_sum_def masked_pivot_def
        mask_c0_def mask_c1_def mask_c2_def mask_c3_def mask_d2_def mask_d0_d1_def
        mask_d0_nd1_def byte_of_def Let_def type_as_def vadd_def vscale_def
        q0_def q1_def q2_def q3_def)

lemma taylor_row:
  "ax * ax + ay * ay + az * az \<le> eps \<Longrightarrow>
   angle_axis_to_rotation_matrix_row (ax, ay, az) =
     [[1, - az, ay, 0], [az, 1, - ax, 0], [- ay, ax, 1, 0], [0, 0, 0, 1]]"
  by (simp add: eye4 angle_axis_to_rotation_matrix_row_def compute_rotation_matrix_def
        compute_rotation_matrix_taylor_def Let_def set_block3_def madd_def smul_def
        byte_of_def type_as_def)

lemma taylor_numpy:
  "ax * ax + ay * ay + az * az \<le> float32_eps \<Longrightarrow>
   angle_axis_to_rotation_matrix_numpy [ax, ay, az] =
     Inr [[1, - az, ay, 0], [az, 1, - ax, 0], [- ay, ax, 1, 0], [0, 0, 0, 1]]"
  by (simp add: eye4 angle_axis_to_rotation_matrix_numpy_def dot_def Let_def set_entry_def)

subsection \<open>Branch selection of the batched matrix to quaternion conversion\<close>

text \<open>
  C10. In the batched matrix to quaternion converter the four selection masks form a
  partition: for every batch element exactly one of \<open>mask_c0\<close>, ..., \<open>mask_c3\<close> is 1 and the
  other three are 0, so the masked sum of the four candidate quaternions is the candidate
  of exactly one branch.
\<close>

theorem mask_partition:
  "(mask_c0 m, mask_c1 m, mask_c2 m, mask_c3 m)
     \<in> {(1, 0, 0, 0), (0, 1, 0, 0), (0, 0, 1, 0), (0, 0, 0, 1)}
   \<and> masked_sum m =
        (if mask_c0 m = 1 then q0 m else if mask_c1 m = 1 then q1 m
         else if mask_c2 m = 1 then q2 m else q3 m)"
  by (simp add: masked_sum_def mask_c0_def mask_c1_def mask_c2_def mask_c3_def mask_d2_def
        mask_d0_d1_def mask_d0_nd1_def byte_of_def Let_def type_as_def vadd_def vscale_def
        q0_def q1_def q2_def q3_def)

theorem mask_partition_witness:
  "(mask_c0 (eye 4), mask_c1 (eye 4), mask_c2 (eye 4), mask_c3 (eye 4)) = (0, 0, 0, 1)
   \<and> masked_sum (eye 4) = [4, 0, 0, 0]"
  using mask_partition [of "eye 4"]
  by (simp add: eye4 mask_defs cand_defs eps_def)

text \<open>
  C2 (as amended). For every batch element exactly one branch is selected: branch 0 when
  \<open>R22 < eps\<close> and \<open>R00 > R11\<close>, branch 1 when \<open>R22 < eps\<close> and \<open>R00 \<le> R11\<close>, branch 2 when
  \<open>R22 \<ge> eps\<close> and \<open>R00 < - R11\<close>, branch 3 otherwise. When the pivot \<open>t\<close> of the selected branch
  is positive, three components of the quaternion are sums or differences of off-diagonal
  entries divided by \<open>sqrt t\<close> and the component at the pivot's position is \<open>t / sqrt t\<close>; the
  whole quaternion is scaled by 0.5.
\<close>

theorem branch_formulas:
  "(m ! 2 ! 2 < eps \<and> m ! 0 ! 0 > m ! 1 ! 1 \<and> 0 < t0 m \<longrightarrow>
      rotation_matrix_to_quaternion_row m =
        Some [(m ! 2 ! 1 - m ! 1 ! 2) / sqrt (t0 m) * (1 / 2), t0 m / sqrt (t0 m) * (1 / 2),
              (m ! 1 ! 0 + m ! 0 ! 1) / sqrt (t0 m) * (1 / 2),
              (m ! 0 ! 2 + m ! 2 ! 0) / sqrt (t0 m) * (1 / 2)])
   \<and> (m ! 2 ! 2 < eps \<and> m ! 0 ! 0 \<le> m ! 1 ! 1 \<and> 0 < t1 m \<longrightarrow>
      rotation_matrix_to_quaternion_row m =
        Some [(m ! 0 ! 2 - m ! 2 ! 0) / sqrt (t1 m) * (1 / 2),
              (m ! 1 ! 0 + m ! 0 ! 1) / sqrt (t1 m) * (1 / 2), t1 m / sqrt (t1 m) * (1 / 2),
              (m ! 2 ! 1 + m ! 1 ! 2) / sqrt (t1 m) * (1 / 2)])
   \<and> (m ! 2 ! 2 \<ge> eps \<and> m ! 0 ! 0 < - (m ! 1 ! 1) \<and> 0 < t2 m \<longrightarrow>
      rotation_matrix_to_quaternion_row m =
        Some [(m ! 1 ! 0 - m ! 0 ! 1) / sqrt (t2 m) * (1 / 2),
              (m ! 0 ! 2 + m ! 2 ! 0) / sqrt (t2 m) * (1 / 2),
              (m ! 2 ! 1 + m ! 1 ! 2) / sqrt (t2 m) * (1 / 2), t2 m / sqrt (t2 m) * (1 / 2)])
   \<and> (m ! 2 ! 2 \<ge> eps \<and> m ! 0 ! 0 \<ge> - (m ! 1 ! 1) \<and> 0 < t3 m \<longrightarrow>
      rotation_matrix_to_quaternion_row m =
        Some [t3 m / sqrt (t3 m) * (1 / 2), (m ! 2 ! 1 - m ! 1 ! 2) / sqrt (t3 m) * (1 / 2),
              (m ! 0 ! 2 - m ! 2 ! 0) / sqrt (t3 m) * (1 / 2),
              (m ! 1 ! 0 - m ! 0 ! 1) / sqrt (t3 m) * (1 / 2)])"
  by (simp add: row_of_masks mask_defs q0_def q1_def q2_def q3_def)

text \<open>
  The matrix of the rotation by a half turn about the first axis selects branch 0 (pivot 4).
\<close>

theorem branch_formulas_witness:
  "rotation_matrix_to_quaternion_row [[1, 0, 0, 0], [0, - 1, 0, 0], [0, 0, - 1, 0], [0, 0, 0, 1]]
     = Some [0, 1, 0, 0]"
  using branch_formulas [of "[[1, 0, 0, 0], [0, - 1, 0, 0], [0, 0, - 1, 0], [0, 0, 0, 1]]"]
  by (simp add: eps_def t0_def transpose12_def)

text \<open>
  The claim as first written ("each component is a sum or difference of off-diagonal
  entries divided by \<open>sqrt t\<close>") fails at the identity matrix: the result is \<open>[1, 0, 0, 0]\<close>,
  and every off-diagonal entry is 0.
\<close>

theorem identity_component_counterexample:
  "rotation_matrix_to_quaternion_row (eye 4) = Some [1, 0, 0, 0]
   \<and> \<not> spec_component_form (eye 4) [1, 0, 0, 0]"
  by (simp add: eye4 row_of_masks mask_defs cand_defs eps_def spec_component_form_def
        sums_differences_def off_diagonal_def masked_pivot_def)

subsection \<open>The degenerate branch of axis-angle to rotation matrix\<close>

text \<open>
  C5. The zero vector gives the 4 by 4 identity matrix exactly, on both paths. For every
  input with \<open>theta2 \<le> eps\<close> (the batched path) or \<open>theta2 \<le> float32_eps\<close> (the array path)
  the rotation block has diagonal 1 and off-diagonal entries plus or minus the components
  of the input.
\<close>

theorem degenerate_branch:
  "angle_axis_to_rotation_matrix (Tensor [1, 3] [0, 0, 0])
     = Returns (Tensor [1, 4, 4] [1, 0, 0, 0, 0, 1, 0, 0, 0, 0, 1, 0, 0, 0, 0, 1])
   \<and> angle_axis_to_rotation_matrix (NdArray1 [0, 0, 0])
     = Returns (NdArray2 4 4 [1, 0, 0, 0, 0, 1, 0, 0, 0, 0, 1, 0, 0, 0, 0, 1])
   \<and> (i < length batch \<and> batch ! i = (ax, ay, az) \<and> ax * ax + ay * ay + az * az \<le> eps \<longrightarrow>
        angle_axis_to_rotation_matrix_torch batch ! i =
          [[1, - az, ay, 0], [az, 1, - ax, 0], [- ay, ax, 1, 0], [0, 0, 0, 1]])
   \<and> (ax * ax + ay * ay + az * az \<le> float32_eps \<longrightarrow>
        angle_axis_to_rotation_matrix_numpy [ax, ay, az] =
          Inr [[1, - az, ay, 0], [az, 1, - ax, 0], [- ay, ax, 1, 0], [0, 0, 0, 1]])"
proof -
  have z: "(0::real) * 0 + 0 * 0 + 0 * 0 \<le> eps" "(0::real) * 0 + 0 * 0 + 0 * 0 \<le> float32_eps"
    by (simp_all add: eps_def float32_eps_def)
  have a: "angle_axis_to_rotation_matrix (Tensor [1, 3] [0, 0, 0])
     = Returns (Tensor [1, 4, 4] [1, 0, 0, 0, 0, 1, 0, 0, 0, 0, 1, 0, 0, 0, 0, 1])"
    using taylor_row [OF z(1)]
    by (simp add: angle_axis_to_rotation_matrix_def angle_axis_to_rotation_matrix_torch_def
          rows_of_def vec3_of_def)
  have b: "angle_axis_to_rotation_matrix (NdArray1 [0, 0, 0])
     = Returns (NdArray2 4 4 [1, 0, 0, 0, 0, 1, 0, 0, 0, 0, 1, 0, 0, 0, 0, 1])"
    using taylor_numpy [OF z(2)] by (simp add: angle_axis_to_rotation_matrix_def)
  show ?thesis
    using a b by (simp add: taylor_row taylor_numpy angle_axis_to_rotation_matrix_torch_def)
qed

theorem degenerate_branch_witness:
  "angle_axis_to_rotation_matrix_torch [(0, 0, 0), (1 / 2000, 0, - 1 / 4000)] ! 1 =
     [[1, 1 / 4000, 0, 0], [- 1 / 4000, 1, - 1 / 2000, 0], [0, 1 / 2000, 1, 0], [0, 0, 0, 1]]
   \<and> angle_axis_to_rotation_matrix_numpy [1 / 4000, 0, 0] =
     Inr [[1, 0, 0, 0], [0, 1, - 1 / 4000, 0], [0, 1 / 4000, 1, 0], [0, 0, 0, 1]]"
  using degenerate_branch [of 1 "[(0, 0, 0), (1 / 2000, 0, - 1 / 4000)]" "1 / 2000" 0 "- 1 / 4000"]
    degenerate_branch [of 0 "[]" "1 / 4000" 0 0]
  by (simp add: eps_def float32_eps_def)

subsection \<open>Errors of the dispatchers\<close>

text \<open>
  C8. An argument of an unsupported type: the axis-angle and the matrix dispatchers raise
  NotImplementedError with a message that names the type. The quaternion dispatcher formats
  its message from the name \<open>rotation_matrix\<close>, which is not bound there, and raises NameError.
\<close>

theorem unsupported_type_dispatch:
  "angle_axis_to_rotation_matrix (Other ty)
     = Raises (NotImplementedError (''Not suported type '' @ ty))
   \<and> rotation_matrix_to_quaternion (Other ty)
     = Raises (NotImplementedError (''Not suported type '' @ ty))
   \<and> quaternion_to_angle_axis (Other ty) = Raises (NameError ''rotation_matrix'')"
  by (simp add: angle_axis_to_rotation_matrix_def rotation_matrix_to_quaternion_def
        quaternion_to_angle_axis_def unsupported_def)




subsection \<open>The near-identity branch of quaternion to axis-angle\<close>

lemma near_identity_row:
  assumes "norm_list [qw, qx, qy, qz] \<noteq> 0" "0 < sin_squared_of [qw, qx, qy, qz]"
    "sin_squared_of [qw, qx, qy, qz] \<le> eps"
  shows "quaternion_to_angle_axis_row (qw, qx, qy, qz) =
    Some (vec3_of (twice_vector_part [qw, qx, qy, qz]))"
  using assms
  by (simp add: quaternion_to_angle_axis_row_def sin_squared_of_def twice_vector_part_def
      vec3_of_def Let_def byte_of_def type_as_def)

lemma zero_sin_row:
  assumes "norm_list [qw, qx, qy, qz] \<noteq> 0" "sin_squared_of [qw, qx, qy, qz] = 0"
  shows "quaternion_to_angle_axis_row (qw, qx, qy, qz) = None"
  using assms
  by (simp add: quaternion_to_angle_axis_row_def sin_squared_of_def Let_def)

lemma zero_sin_numpy:
  assumes "length q = 4" "norm_list q \<noteq> 0" "sin_squared_of q \<le> 0"
  shows "quaternion_to_angle_axis_numpy q = Inr (Some (twice_vector_part q))"
  using assms
  by (simp add: quaternion_to_angle_axis_numpy_def sin_squared_of_def twice_vector_part_def Let_def)

lemma pos_sin_numpy:
  assumes "length q = 4" "norm_list q \<noteq> 0" "0 < sin_squared_of q"
  shows "quaternion_to_angle_axis_numpy q = 
     Inr (Some (let n = 1 / norm_list q; s = sqrt (sin_squared_of q); c = q ! 0 * n;
                    k = 2 * (if c < 0 then atan2 (- s) (- c) else atan2 s c) / s
                in [q ! 1 * n * k, q ! 2 * n * k, q ! 3 * n * k]))"
  using assms
  by (simp add: quaternion_to_angle_axis_numpy_def sin_squared_of_def Let_def)

lemma sin_lt_self:
  fixes y :: real
  assumes "0 < y" "y < pi"
  shows "sin y < y"
proof -
  have c1: "cos (y / 2) < 1"
    using cos_monotone_0_pi [of 0 "y / 2"] assms by simp
  have s0: "0 < sin (y / 2)"
    using sin_gt_zero [of "y / 2"] assms by simp
  have s1: "sin (y / 2) \<le> y / 2"
    using sin_x_le_x [of "y / 2"] assms by simp
  have "sin y = 2 * sin (y / 2) * cos (y / 2)"
    using sin_double [of "y / 2"] by simp
  also have "\<dots> < 2 * sin (y / 2) * 1"
    using c1 s0 by (intro mult_strict_left_mono) simp_all
  also have "\<dots> \<le> y" using s1 by simp
  finally show ?thesis .
qed

lemma arctan_small: "0 < arctan (1 / 10000 :: real)" "arctan (1 / 10000 :: real) < pi"
proof -
  show "0 < arctan (1 / 10000 :: real)" by simp
  have "arctan (1 / 10000 :: real) < pi / 2" by (rule arctan_ubound)
  also have "\<dots> < pi" using pi_gt_zero by simp
  finally show "arctan (1 / 10000 :: real) < pi" .
qed

lemma norm4: "norm_list [1, 1 / 10000, 0, 0] = sqrt (1 + (1 / 10000)\<^sup>2)"
  by (simp add: norm_list_def power2_eq_square)

lemma norm4_pos: "0 < norm_list [1, 1 / 10000, 0, 0]"
  unfolding norm4 by (rule real_sqrt_gt_zero) (simp add: power2_eq_square)

lemma ssq: "sin_squared_of [1, 1 / 10000, 0, 0] = (1 / 10000)\<^sup>2 / (1 + (1 / 10000)\<^sup>2)"
proof -
  have "sin_squared_of [1, 1 / 10000, 0, 0] = (1 / 10000 / sqrt (1 + (1 / 10000)\<^sup>2))\<^sup>2"
    by (simp add: sin_squared_of_def Let_def norm4 power2_eq_square)
  also have "\<dots> = (1 / 10000)\<^sup>2 / (sqrt (1 + (1 / 10000)\<^sup>2))\<^sup>2"
    by (rule power_divide)
  also have "(sqrt (1 + (1 / 10000)\<^sup>2))\<^sup>2 = 1 + (1 / 10000 :: real)\<^sup>2"
    by (rule real_sqrt_pow2) (simp add: power2_eq_square)
  finally show ?thesis .
qed

lemma ssq_small: "sin_squared_of [1, 1 / 10000, 0, 0] \<le> float32_eps"
   "sin_squared_of [1, 1 / 10000, 0, 0] \<le> eps" "0 < sin_squared_of [1, 1 / 10000, 0, 0]"
  unfolding ssq by (simp_all add: float32_eps_def eps_def power2_eq_square)

lemma numpy_at: "quaternion_to_angle_axis_numpy [1, 1 / 10000, 0, 0] = Inr (Some [2 * arctan (1 / 10000), 0, 0])"
proof -
  let ?q = "[1, 1 / 10000, 0, 0] :: real list"
  let ?n = "norm_list ?q"
  have n0: "?n \<noteq> 0" using norm4_pos by simp
  have s: "sqrt (sin_squared_of ?q) = 1 / 10000 / ?n"
  proof -
    have "sin_squared_of ?q = (1 / 10000 / ?n)\<^sup>2"
      by (simp add: sin_squared_of_def Let_def power2_eq_square)
    moreover have "0 \<le> 1 / 10000 / ?n" using norm4_pos by simp
    ultimately show ?thesis by simp
  qed
  have spos: "0 < 1 / 10000 / ?n" using norm4_pos by simp
  have cpos: "0 < 1 / ?n" using norm4_pos by simp
  have at: "atan2 (1 / 10000 / ?n) (1 / ?n) = arctan (1 / 10000)"
    using cpos n0 by (simp add: atan2_def)
  show ?thesis
    using pos_sin_numpy [of ?q, OF _ n0 ssq_small(3)] s at spos cpos n0
    by (simp add: Let_def)
qed

lemma twice_at: "twice_vector_part [1, 1 / 10000, 0, 0] = [2 * sin (arctan (1 / 10000)), 0, 0]"
  by (simp add: twice_vector_part_def Let_def norm4 sin_arctan)

text \<open>
  The threshold of the array path is 0: a quaternion with \<open>0 < sin_squared \<le> eps\<close> goes
  through the general branch there, \<open>k = 2 * theta / sin_theta\<close> with a nonzero \<open>sin_theta\<close>,
  and the result differs from twice the vector part.
\<close>

lemma array_threshold_example:
  "sin_squared_of [1, 1 / 10000, 0, 0] \<le> eps
   \<and> sin_squared_of [1, 1 / 10000, 0, 0] \<le> float32_eps
   \<and> norm_list [1, 1 / 10000, 0, 0] \<noteq> 0
   \<and> quaternion_to_angle_axis_numpy [1, 1 / 10000, 0, 0]
        \<noteq> Inr (Some (twice_vector_part [1, 1 / 10000, 0, 0]))"
  using sin_lt_self [OF arctan_small] norm4_pos
  by (simp add: ssq_small numpy_at twice_at)

text \<open>
  C4. The claim: for every quaternion of nonzero norm whose normalized vector part has
  \<open>sin_squared \<le> eps\<close>, \<open>k = 2\<close> exactly and the result is twice the normalized vector part,
  with no division by a vanishing \<open>sin_theta\<close> affecting it. The batched path computes
  \<open>k_pos = two_theta / sin_theta\<close> for every row before the masks are applied: for the
  identity quaternion \<open>(1, 0, 0, 0)\<close>, where \<open>sin_squared = 0\<close>, it is \<open>0 / 0\<close>, its product
  with the zero mask is NaN, and the three components of the result are NaN. The array path
  takes its branch \<open>k = 2\<close> there and returns twice the vector part, \<open>[0, 0, 0]\<close>.
\<close>

theorem vanishing_sin_not_finite:
  "norm_list [1, 0, 0, 0] \<noteq> 0
   \<and> sin_squared_of [1, 0, 0, 0] \<le> eps
   \<and> quaternion_to_angle_axis_torch [(1, 0, 0, 0)] = [None]
   \<and> twice_vector_part [1, 0, 0, 0] = [0, 0, 0]
   \<and> quaternion_to_angle_axis_numpy [1, 0, 0, 0] = Inr (Some [0, 0, 0])"
  by (simp add: quaternion_to_angle_axis_torch_def quaternion_to_angle_axis_row_def
      quaternion_to_angle_axis_numpy_def sin_squared_of_def twice_vector_part_def
      norm_list_def eps_def Let_def)

subsection \<open>Antipodal quaternions\<close>

lemma row_general:
  assumes n: "qw * qw + qx * qx + qy * qy + qz * qz = 1" and s: "qx * qx + qy * qy + qz * qz > eps"
  shows "quaternion_to_angle_axis_row (qw, qx, qy, qz) =
    (let s = sqrt (qx * qx + qy * qy + qz * qz);
         k = 2 * (if qw < eps then atan2 (- s) (- qw) else atan2 s qw) / s
     in Some (qx * k, qy * k, qz * k))"
proof -
  have nl: "norm_list [qw, qx, qy, qz] = 1" using n by (simp add: norm_list_def)
  have "0 < eps" by (simp add: eps_def)
  then have sp: "0 < qx * qx + qy * qy + qz * qz" using s by linarith
  then have "sqrt (qx * qx + qy * qy + qz * qz) \<noteq> 0" by simp
  then show ?thesis using s
    by (simp add: quaternion_to_angle_axis_row_def nl Let_def byte_of_def type_as_def)
qed

lemma atan2_neg_pos: "0 < x \<Longrightarrow> atan2 (- y) x = - atan2 y x"
  by (simp add: atan2_def arctan_minus)

lemma antipodal_row:
  assumes "qw * qw + qx * qx + qy * qy + qz * qz = 1"
    and "qx * qx + qy * qy + qz * qz > eps"
    and "eps \<le> \<bar>qw\<bar>"
  shows "quaternion_to_angle_axis_row (- qw, - qx, - qy, - qz)
           = quaternion_to_angle_axis_row (qw, qx, qy, qz)"
proof -
  have e: "0 < eps" by (simp add: eps_def)
  have n': "(- qw) * (- qw) + (- qx) * (- qx) + (- qy) * (- qy) + (- qz) * (- qz) = 1"
    using assms(1) by simp
  have s': "(- qx) * (- qx) + (- qy) * (- qy) + (- qz) * (- qz) > eps"
    using assms(2) by simp
  show ?thesis
  proof (cases "eps \<le> qw")
    case True
    then have "0 < qw" "\<not> qw < eps" "- qw < eps" using e by linarith+
    then show ?thesis
      unfolding row_general [OF assms(1,2)] row_general [OF n' s']
      by (simp add: Let_def atan2_neg_pos)
  next
    case False
    then have "qw \<le> - eps" using assms(3) by linarith
    then have "0 < - qw" "qw < eps" "\<not> - qw < eps" using e by linarith+
    then show ?thesis
      unfolding row_general [OF assms(1,2)] row_general [OF n' s']
      by (simp add: Let_def atan2_neg_pos)
  qed
qed

lemma antipodal_near_identity:
  assumes "qw * qw + qx * qx + qy * qy + qz * qz = 1"
    and "0 < qx * qx + qy * qy + qz * qz" "qx * qx + qy * qy + qz * qz \<le> eps"
  shows "quaternion_to_angle_axis_row (qw, qx, qy, qz) = Some (qx * 2, qy * 2, qz * 2)"
    and "quaternion_to_angle_axis_row (- qw, - qx, - qy, - qz)
           = Some (- qx * 2, - qy * 2, - qz * 2)"
proof -
  have n: "norm_list [qw, qx, qy, qz] = 1" "norm_list [- qw, - qx, - qy, - qz] = 1"
    using assms(1) by (simp_all add: norm_list_def)
  have s: "sin_squared_of [qw, qx, qy, qz] = qx * qx + qy * qy + qz * qz"
    "sin_squared_of [- qw, - qx, - qy, - qz] = qx * qx + qy * qy + qz * qz"
    by (simp_all add: sin_squared_of_def n)
  show "quaternion_to_angle_axis_row (qw, qx, qy, qz) = Some (qx * 2, qy * 2, qz * 2)"
    using near_identity_row [of qw qx qy qz] assms(2,3)
    by (simp add: n s twice_vector_part_def vec3_of_def)
  show "quaternion_to_angle_axis_row (- qw, - qx, - qy, - qz)
           = Some (- qx * 2, - qy * 2, - qz * 2)"
    using near_identity_row [of "- qw" "- qx" "- qy" "- qz"] assms(2,3)
    by (simp add: n s twice_vector_part_def vec3_of_def)
qed

text \<open>
  A half turn about the first axis: the scalar part of the unit quaternion \<open>(0, 1, 0, 0)\<close> is
  0, the rotations by \<open>pi\<close> and by \<open>- pi\<close> about the axis are the same, and the two
  antipodal quaternions give the two vectors.
\<close>

lemma half_turn_antipodes:
  "quaternion_to_angle_axis_torch [(0, 1, 0, 0)] = [Some (- pi, 0, 0)]
   \<and> quaternion_to_angle_axis_torch [(- 0, - 1, - 0, - 0)] = [Some (pi, 0, 0)]
   \<and> 4 \<le> \<bar>pi - (- pi)\<bar>"
proof -
  have a: "(0::real) * 0 + 1 * 1 + 0 * 0 + 0 * 0 = 1" by simp
  have b: "(1::real) * 1 + 0 * 0 + 0 * 0 > eps" by (simp add: eps_def)
  have a': "(0::real) * 0 + (- 1) * (- 1) + 0 * 0 + 0 * 0 = 1" by simp
  have b': "(- 1::real) * (- 1) + 0 * 0 + 0 * 0 > eps" by (simp add: eps_def)
  have c: "4 \<le> \<bar>pi - (- pi)\<bar>" using pi_ge_two by simp
  show ?thesis
    using row_general [OF a b] row_general [OF a' b'] c
    by (simp add: Let_def atan2_def eps_def quaternion_to_angle_axis_torch_def)
qed

text \<open>
  A unit quaternion \<open>(qw, qx, 0, 0)\<close> with \<open>0 < qw < eps\<close>, a rotation about the first axis by
  a little less than a half turn, and its antipode. On the batched path the test
  \<open>cos_theta < eps\<close> holds for both, both take \<open>atan2(-sin_theta, -cos_theta)\<close>, and the two
  results differ by \<open>2 * pi\<close>. On the array path the test is \<open>cos_theta < 0\<close> and the two
  results are equal.
\<close>

lemma near_half_turn_batched:
  assumes n: "qw * qw + qx * qx = 1" and w: "0 < qw" "qw < eps" and x: "0 < qx"
  shows "quaternion_to_angle_axis_row (qw, qx, 0, 0) = Some (2 * arctan (qx / qw) - 2 * pi, 0, 0)"
    and "quaternion_to_angle_axis_row (- qw, - qx, 0, 0) = Some (2 * arctan (qx / qw), 0, 0)"
proof -
  have e: "0 < eps" "eps < 1 / 1000" by (simp_all add: eps_def)
  have w1: "qw * qw < 1 / 2"
  proof -
    have "qw \<le> 1" using w e by linarith
    then have "qw * qw \<le> qw * 1" using w by (intro mult_left_mono) simp_all
    then show ?thesis using w e by linarith
  qed
  have s: "qx * qx + 0 * 0 + 0 * 0 > eps" using n w1 e by simp
  have n1: "qw * qw + qx * qx + 0 * 0 + 0 * 0 = 1" using n by simp
  have n2: "(- qw) * (- qw) + (- qx) * (- qx) + 0 * 0 + 0 * 0 = 1" using n by simp
  have s2: "(- qx) * (- qx) + 0 * 0 + 0 * 0 > eps" using s by simp
  have sq: "sqrt (qx * qx) = qx" using x by simp
  have a1: "atan2 (- qx) (- qw) = arctan (qx / qw) - pi"
    using w x by (simp add: atan2_def)
  have a2: "atan2 (- qx) qw = - arctan (qx / qw)"
    using w by (simp add: atan2_def arctan_minus)
  have m: "- qw < eps" using w e by simp
  show "quaternion_to_angle_axis_row (qw, qx, 0, 0) = Some (2 * arctan (qx / qw) - 2 * pi, 0, 0)"
    unfolding row_general [OF n1 s] using w x
    by (simp add: Let_def sq a1 field_simps)
  show "quaternion_to_angle_axis_row (- qw, - qx, 0, 0) = Some (2 * arctan (qx / qw), 0, 0)"
    unfolding row_general [OF n2 s2] using m x
    by (simp add: Let_def sq a2)
qed

lemma near_half_turn_array:
  assumes n: "qw * qw + qx * qx = 1" and w: "0 < qw" and x: "0 < qx"
  shows "quaternion_to_angle_axis_numpy [qw, qx, 0, 0] = Inr (Some [2 * arctan (qx / qw), 0, 0])"
    and "quaternion_to_angle_axis_numpy [- qw, - qx, 0, 0] = Inr (Some [2 * arctan (qx / qw), 0, 0])"
proof -
  have nl: "norm_list [qw, qx, 0, 0] = 1" "norm_list [- qw, - qx, 0, 0] = 1"
    using n by (simp_all add: norm_list_def)
  have sq: "sqrt (qx * qx) = qx" using x by simp
  have a1: "atan2 qx qw = arctan (qx / qw)" using w by (simp add: atan2_def)
  have a2: "atan2 (- qx) qw = - arctan (qx / qw)"
    using w by (simp add: atan2_def arctan_minus)
  show "quaternion_to_angle_axis_numpy [qw, qx, 0, 0] = Inr (Some [2 * arctan (qx / qw), 0, 0])"
    using w x by (simp add: quaternion_to_angle_axis_numpy_def nl Let_def sq a1)
  show "quaternion_to_angle_axis_numpy [- qw, - qx, 0, 0] = Inr (Some [2 * arctan (qx / qw), 0, 0])"
    using w x by (simp add: quaternion_to_angle_axis_numpy_def nl Let_def sq a2)
qed

text \<open>
  The unit quaternion \<open>(2 * n, n\<^sup>2 - 1, 0, 0) / (n\<^sup>2 + 1)\<close> for \<open>n = 4000000\<close>: its scalar part is
  about \<open>5e-7\<close>.
\<close>

lemma near_half_turn_quaternion:
  "(8000000 / 16000000000001 :: real) * (8000000 / 16000000000001)
     + (15999999999999 / 16000000000001) * (15999999999999 / 16000000000001) = 1"
  "(0 :: real) < 8000000 / 16000000000001"
  "(8000000 / 16000000000001 :: real) < eps"
  "(0 :: real) < 15999999999999 / 16000000000001"
  "(15999999999999 / 16000000000001 :: real) / (8000000 / 16000000000001) = 15999999999999 / 8000000"
  by (simp_all add: eps_def)

text \<open>
  C6. The claim: for every unit quaternion \<open>q\<close> the conversion returns approximately the same
  axis-angle vector for \<open>q\<close> and for \<open>- q\<close>. On the batched path it does not when the scalar
  part is positive and below \<open>eps\<close>: for the unit quaternion with scalar part about \<open>5e-7\<close>
  and vector part along the first axis the two results differ by \<open>2 * pi\<close> in the first
  component, while the array path returns the same vector for both.
\<close>

theorem antipodes_near_half_turn:
  "quaternion_to_angle_axis_torch [(8000000 / 16000000000001, 15999999999999 / 16000000000001, 0, 0)]
     = [Some (2 * arctan (15999999999999 / 8000000) - 2 * pi, 0, 0)]
   \<and> quaternion_to_angle_axis_torch
        [(- (8000000 / 16000000000001), - (15999999999999 / 16000000000001), - 0, - 0)]
     = [Some (2 * arctan (15999999999999 / 8000000), 0, 0)]
   \<and> quaternion_to_angle_axis_numpy [8000000 / 16000000000001, 15999999999999 / 16000000000001, 0, 0]
     = Inr (Some [2 * arctan (15999999999999 / 8000000), 0, 0])
   \<and> quaternion_to_angle_axis_numpy
        [- (8000000 / 16000000000001), - (15999999999999 / 16000000000001), - 0, - 0]
     = Inr (Some [2 * arctan (15999999999999 / 8000000), 0, 0])
   \<and> 4 \<le> \<bar>2 * arctan (15999999999999 / 8000000) - (2 * arctan (15999999999999 / 8000000) - 2 * pi)\<bar>"
proof -
  have p: "(4 :: real) \<le> 2 * pi" using pi_ge_two by simp
  show ?thesis
    using near_half_turn_batched [OF near_half_turn_quaternion(1-4)]
      near_half_turn_array [OF near_half_turn_quaternion(1,2,4)] p
    by (simp add: quaternion_to_angle_axis_torch_def near_half_turn_quaternion(5))
qed

subsection \<open>Unit norm of the quaternion of a rotation matrix\<close>

lemma sq_sum3_zero:
  fixes x y z :: real
  assumes "x * x + y * y + z * z = 0"
  shows "x = 0" "y = 0" "z = 0"
proof -
  have "x\<^sup>2 + y\<^sup>2 + z\<^sup>2 = 0" using assms by (simp add: power2_eq_square)
  then have "x\<^sup>2 + y\<^sup>2 = 0 \<and> z\<^sup>2 = 0"
    by (metis add_nonneg_eq_0_iff add_nonneg_nonneg zero_le_power2)
  then show "x = 0" "y = 0" "z = 0" by (simp_all add: add_nonneg_eq_0_iff)
qed

text \<open>
  In an orthonormal matrix of determinant 1 each column is the cross product of the other
  two: the difference of the two vectors has squared length \<open>1 - 2 * det + 1 = 0\<close>. Three
  of the nine equations, the principal minors, are what the pivots need.
\<close>

lemma cross_of_orthonormal:
  fixes a b c d e f g h i :: real
  assumes n1: "a * a + d * d + g * g = 1" and n2: "b * b + e * e + h * h = 1"
    and n3: "c * c + f * f + i * i = 1"
    and o12: "a * b + d * e + g * h = 0" and o13: "a * c + d * f + g * i = 0"
    and o23: "b * c + e * f + h * i = 0"
    and det: "a * (e * i - f * h) - b * (d * i - f * g) + c * (d * h - e * g) = 1"
  shows "a * e - b * d = i" "e * i - f * h = a" "a * i - c * g = e"
proof -
  have "(c - (d * h - g * e)) * (c - (d * h - g * e)) + (f - (g * b - a * h)) * (f - (g * b - a * h))
        + (i - (a * e - d * b)) * (i - (a * e - d * b))
      = (c * c + f * f + i * i)
        - 2 * (a * (e * i - f * h) - b * (d * i - f * g) + c * (d * h - e * g))
        + ((a * a + d * d + g * g) * (b * b + e * e + h * h) - (a * b + d * e + g * h) * (a * b + d * e + g * h))"
    by (simp add: algebra_simps)
  also have "\<dots> = 0" unfolding n1 n2 n3 o12 det by simp
  finally have "i - (a * e - d * b) = 0" by (rule sq_sum3_zero(3))
  then show "a * e - b * d = i" by (simp add: algebra_simps)
  have "(a - (e * i - h * f)) * (a - (e * i - h * f)) + (d - (h * c - b * i)) * (d - (h * c - b * i))
        + (g - (b * f - e * c)) * (g - (b * f - e * c))
      = (a * a + d * d + g * g)
        - 2 * (a * (e * i - f * h) - b * (d * i - f * g) + c * (d * h - e * g))
        + ((b * b + e * e + h * h) * (c * c + f * f + i * i) - (b * c + e * f + h * i) * (b * c + e * f + h * i))"
    by (simp add: algebra_simps)
  also have "\<dots> = 0" unfolding n1 n2 n3 o23 det by simp
  finally have "a - (e * i - h * f) = 0" by (rule sq_sum3_zero(1))
  then show "e * i - f * h = a" by (simp add: algebra_simps)
  have "(b - (f * g - i * d)) * (b - (f * g - i * d)) + (e - (i * a - c * g)) * (e - (i * a - c * g))
        + (h - (c * d - f * a)) * (h - (c * d - f * a))
      = (b * b + e * e + h * h)
        - 2 * (a * (e * i - f * h) - b * (d * i - f * g) + c * (d * h - e * g))
        + ((c * c + f * f + i * i) * (a * a + d * d + g * g) - (a * c + d * f + g * i) * (a * c + d * f + g * i))"
    by (simp add: algebra_simps)
  also have "\<dots> = 0" unfolding n1 n2 n3 o13 det by simp
  finally have "e - (i * a - c * g) = 0" by (rule sq_sum3_zero(2))
  then show "a * i - c * g = e" by (simp add: algebra_simps)
qed

lemma pivot_identities:
  fixes a b c d e f g h i :: real
  assumes n1: "a * a + d * d + g * g = 1" and n2: "b * b + e * e + h * h = 1"
    and n3: "c * c + f * f + i * i = 1"
    and m1: "a * e - b * d = i" and m2: "e * i - f * h = a" and m3: "a * i - c * g = e"
  shows "(h - f) * (h - f) + (1 + a - e - i) * (1 + a - e - i) + (d + b) * (d + b) + (c + g) * (c + g)
           = 4 * (1 + a - e - i)"
    and "(c - g) * (c - g) + (d + b) * (d + b) + (1 - a + e - i) * (1 - a + e - i) + (h + f) * (h + f)
           = 4 * (1 - a + e - i)"
    and "(d - b) * (d - b) + (c + g) * (c + g) + (h + f) * (h + f) + (1 - a - e + i) * (1 - a - e + i)
           = 4 * (1 - a - e + i)"
    and "(1 + a + e + i) * (1 + a + e + i) + (h - f) * (h - f) + (c - g) * (c - g) + (d - b) * (d - b)
           = 4 * (1 + a + e + i)"
proof -
  have s: "a * a + d * d + g * g + (b * b + e * e + h * h) + (c * c + f * f + i * i) = 3"
    unfolding n1 n2 n3 by simp
  have "(h - f) * (h - f) + (1 + a - e - i) * (1 + a - e - i) + (d + b) * (d + b) + (c + g) * (c + g)
     = 1 + 2 * (a - e - i) + (a * a + d * d + g * g + (b * b + e * e + h * h) + (c * c + f * f + i * i))
       + 2 * ((e * i - f * h) - (a * e - b * d) - (a * i - c * g))"
    by (simp add: algebra_simps)
  also have "\<dots> = 4 * (1 + a - e - i)"
    unfolding s m1 m2 m3 by simp
  finally show "(h - f) * (h - f) + (1 + a - e - i) * (1 + a - e - i) + (d + b) * (d + b) + (c + g) * (c + g)
           = 4 * (1 + a - e - i)" .
  have "(c - g) * (c - g) + (d + b) * (d + b) + (1 - a + e - i) * (1 - a + e - i) + (h + f) * (h + f)
     = 1 + 2 * (e - a - i) + (a * a + d * d + g * g + (b * b + e * e + h * h) + (c * c + f * f + i * i))
       + 2 * ((a * i - c * g) - (a * e - b * d) - (e * i - f * h))"
    by (simp add: algebra_simps)
  also have "\<dots> = 4 * (1 - a + e - i)"
    unfolding s m1 m2 m3 by simp
  finally show "(c - g) * (c - g) + (d + b) * (d + b) + (1 - a + e - i) * (1 - a + e - i) + (h + f) * (h + f)
           = 4 * (1 - a + e - i)" .
  have "(d - b) * (d - b) + (c + g) * (c + g) + (h + f) * (h + f) + (1 - a - e + i) * (1 - a - e + i)
     = 1 + 2 * (i - a - e) + (a * a + d * d + g * g + (b * b + e * e + h * h) + (c * c + f * f + i * i))
       + 2 * ((a * e - b * d) - (a * i - c * g) - (e * i - f * h))"
    by (simp add: algebra_simps)
  also have "\<dots> = 4 * (1 - a - e + i)"
    unfolding s m1 m2 m3 by simp
  finally show "(d - b) * (d - b) + (c + g) * (c + g) + (h + f) * (h + f) + (1 - a - e + i) * (1 - a - e + i)
           = 4 * (1 - a - e + i)" .
  have "(1 + a + e + i) * (1 + a + e + i) + (h - f) * (h - f) + (c - g) * (c - g) + (d - b) * (d - b)
     = 1 + 2 * (a + e + i) + (a * a + d * d + g * g + (b * b + e * e + h * h) + (c * c + f * f + i * i))
       + 2 * ((a * e - b * d) + (a * i - c * g) + (e * i - f * h))"
    by (simp add: algebra_simps)
  also have "\<dots> = 4 * (1 + a + e + i)"
    unfolding s m1 m2 m3 by simp
  finally show "(1 + a + e + i) * (1 + a + e + i) + (h - f) * (h - f) + (c - g) * (c - g) + (d - b) * (d - b)
           = 4 * (1 + a + e + i)" .
qed

lemma rotation_sums:
  assumes "is_rotation m"
  shows "sum_list (map (\<lambda>x. x * x) (q0 m)) = 4 * t0 m"
    and "sum_list (map (\<lambda>x. x * x) (q1 m)) = 4 * t1 m"
    and "sum_list (map (\<lambda>x. x * x) (q2 m)) = 4 * t2 m"
    and "sum_list (map (\<lambda>x. x * x) (q3 m)) = 4 * t3 m"
proof -
  let ?a = "m ! 0 ! 0" and ?b = "m ! 0 ! 1" and ?c = "m ! 0 ! 2"
  let ?d = "m ! 1 ! 0" and ?e = "m ! 1 ! 1" and ?f = "m ! 1 ! 2"
  let ?g = "m ! 2 ! 0" and ?h = "m ! 2 ! 1" and ?i = "m ! 2 ! 2"
  have r: "?a * ?a + ?d * ?d + ?g * ?g = 1" "?b * ?b + ?e * ?e + ?h * ?h = 1"
    "?c * ?c + ?f * ?f + ?i * ?i = 1" "?a * ?b + ?d * ?e + ?g * ?h = 0"
    "?a * ?c + ?d * ?f + ?g * ?i = 0" "?b * ?c + ?e * ?f + ?h * ?i = 0"
    "?a * (?e * ?i - ?f * ?h) - ?b * (?d * ?i - ?f * ?g) + ?c * (?d * ?h - ?e * ?g) = 1"
    using assms by (simp_all add: is_rotation_def Let_def)
  note x = cross_of_orthonormal [OF r]
  note p = pivot_identities [OF r(1,2,3) x]
  show "sum_list (map (\<lambda>x. x * x) (q0 m)) = 4 * t0 m"
    using p(1) by (simp add: cand_defs transpose12_def)
  show "sum_list (map (\<lambda>x. x * x) (q1 m)) = 4 * t1 m"
    using p(2) by (simp add: cand_defs transpose12_def)
  show "sum_list (map (\<lambda>x. x * x) (q2 m)) = 4 * t2 m"
    using p(3) by (simp add: cand_defs transpose12_def)
  show "sum_list (map (\<lambda>x. x * x) (q3 m)) = 4 * t3 m"
    using p(4) by (simp add: cand_defs transpose12_def)
qed

lemma sum_list_squares_nonneg: "0 \<le> sum_list (map (\<lambda>x. x * x) (v :: real list))"
  by (induction v) simp_all

lemma rotation_pivots_nonneg:
  assumes "is_rotation m"
  shows "0 \<le> t0 m" "0 \<le> t1 m" "0 \<le> t2 m" "0 \<le> t3 m"
  using rotation_sums [OF assms] sum_list_squares_nonneg [of "q0 m"]
    sum_list_squares_nonneg [of "q1 m"] sum_list_squares_nonneg [of "q2 m"]
    sum_list_squares_nonneg [of "q3 m"]
  by linarith+

lemma norm_scaled:
  assumes "0 < t" "sum_list (map (\<lambda>x. x * x) v) = 4 * t"
  shows "norm_list (map (\<lambda>x. x / sqrt t * (1 / 2)) v) = 1"
proof -
  have st: "sqrt t * sqrt t = t" using assms(1) by simp
  have pt: "(x / sqrt t * (1 / 2)) * (x / sqrt t * (1 / 2)) = x * x * (1 / (4 * t))" for x
  proof -
    have "(x / sqrt t * (1 / 2)) * (x / sqrt t * (1 / 2)) = x * x / (sqrt t * sqrt t) * (1 / 4)"
      by simp
    then show ?thesis unfolding st by simp
  qed
  have "sum_list (map (\<lambda>x. x * x) (map (\<lambda>x. x / sqrt t * (1 / 2)) v))
          = sum_list (map (\<lambda>x. x * x * (1 / (4 * t))) v)"
    unfolding map_map comp_def pt ..
  also have "\<dots> = sum_list (map (\<lambda>x. x * x) v) * (1 / (4 * t))"
    by (induction v) (simp_all add: algebra_simps)
  also have "\<dots> = 1" using assms by simp
  finally show ?thesis by (simp add: norm_list_def)
qed

lemma pivot_positive:
  fixes a e i T0 T1 T2 T3 :: real
  assumes "0 \<le> T0" "0 \<le> T1" "0 \<le> T2" "0 \<le> T3"
    and "T0 = 1 + a - e - i" "T1 = 1 - a + e - i" "T2 = 1 - a - e + i" "T3 = 1 + a + e + i"
    and "0 < ep" "ep < 1"
  shows "i < ep \<Longrightarrow> a > e \<Longrightarrow> 0 < T0"
    and "i < ep \<Longrightarrow> a \<le> e \<Longrightarrow> 0 < T1"
    and "i \<ge> ep \<Longrightarrow> a < - e \<Longrightarrow> 0 < T2"
    and "i \<ge> ep \<Longrightarrow> a \<ge> - e \<Longrightarrow> 0 < T3"
  using assms by linarith+

lemma rotation_row_unit:
  assumes "is_rotation m"
  shows "\<exists>q. rotation_matrix_to_quaternion_row m = Some q \<and> norm_list q = 1"
proof -
  have e: "0 < eps" by (simp add: eps_def)
  note nn = rotation_pivots_nonneg [OF assms]
  note ss = rotation_sums [OF assms]
  have e1: "eps < 1" by (simp add: eps_def)
  have td: "t0 m = 1 + m ! 0 ! 0 - m ! 1 ! 1 - m ! 2 ! 2" "t1 m = 1 - m ! 0 ! 0 + m ! 1 ! 1 - m ! 2 ! 2"
    "t2 m = 1 - m ! 0 ! 0 - m ! 1 ! 1 + m ! 2 ! 2" "t3 m = 1 + m ! 0 ! 0 + m ! 1 ! 1 + m ! 2 ! 2"
    by (simp_all add: cand_defs transpose12_def)
  note pp = pivot_positive [OF nn td e e1]
  consider (b0) "m ! 2 ! 2 < eps" "m ! 0 ! 0 > m ! 1 ! 1"
    | (b1) "m ! 2 ! 2 < eps" "m ! 0 ! 0 \<le> m ! 1 ! 1"
    | (b2) "m ! 2 ! 2 \<ge> eps" "m ! 0 ! 0 < - (m ! 1 ! 1)"
    | (b3) "m ! 2 ! 2 \<ge> eps" "m ! 0 ! 0 \<ge> - (m ! 1 ! 1)"
    by linarith
  then show ?thesis
  proof cases
    case b0
    then have p: "0 < t0 m" by (rule pp(1))
    have "rotation_matrix_to_quaternion_row m = Some (map (\<lambda>x. x / sqrt (t0 m) * (1 / 2)) (q0 m))"
      using b0 p by (simp add: row_of_masks mask_defs)
    then show ?thesis using norm_scaled [OF p ss(1)] by simp
  next
    case b1
    then have p: "0 < t1 m" by (rule pp(2))
    have "rotation_matrix_to_quaternion_row m = Some (map (\<lambda>x. x / sqrt (t1 m) * (1 / 2)) (q1 m))"
      using b1 p by (simp add: row_of_masks mask_defs)
    then show ?thesis using norm_scaled [OF p ss(2)] by simp
  next
    case b2
    then have p: "0 < t2 m" by (rule pp(3))
    have "rotation_matrix_to_quaternion_row m = Some (map (\<lambda>x. x / sqrt (t2 m) * (1 / 2)) (q2 m))"
      using b2 p by (simp add: row_of_masks mask_defs)
    then show ?thesis using norm_scaled [OF p ss(3)] by simp
  next
    case b3
    then have p: "0 < t3 m" by (rule pp(4))
    have "rotation_matrix_to_quaternion_row m = Some (map (\<lambda>x. x / sqrt (t3 m) * (1 / 2)) (q3 m))"
      using b3 p by (simp add: row_of_masks mask_defs)
    then show ?thesis using norm_scaled [OF p ss(4)] by simp
  qed
qed

lemma numpy_w:
  assumes "0 \<le> m ! 0 ! 0 + m ! 1 ! 1 + m ! 2 ! 2"
  shows "rotation_matrix_to_quaternion_numpy m =
    normalized [0.5 * sqrt (t3 m), (m ! 2 ! 1 - m ! 1 ! 2) * (0.5 / sqrt (t3 m)),
      (m ! 0 ! 2 - m ! 2 ! 0) * (0.5 / sqrt (t3 m)), (m ! 1 ! 0 - m ! 0 ! 1) * (0.5 / sqrt (t3 m))]"
proof -
  have "m ! 0 ! 0 + m ! 1 ! 1 + m ! 2 ! 2 + 1 = t3 m" by (simp add: t3_def transpose12_def)
  then show ?thesis using assms
    by (simp add: rotation_matrix_to_quaternion_numpy_def Let_def normalized_def)
qed

lemma numpy_x:
  assumes "m ! 0 ! 0 + m ! 1 ! 1 + m ! 2 ! 2 < 0" "m ! 1 ! 1 \<le> m ! 0 ! 0" "m ! 2 ! 2 \<le> m ! 0 ! 0"
  shows "0 < t0 m" "rotation_matrix_to_quaternion_numpy m =
    normalized [(m ! 2 ! 1 - m ! 1 ! 2) * (0.5 / sqrt (t0 m)), 0.5 * sqrt (t0 m),
      (m ! 1 ! 0 + m ! 0 ! 1) * (0.5 / sqrt (t0 m)), (m ! 2 ! 0 + m ! 0 ! 2) * (0.5 / sqrt (t0 m))]"
proof -
  have r: "m ! 0 ! 0 - m ! 1 ! 1 - m ! 2 ! 2 + 1 = t0 m" by (simp add: t0_def transpose12_def)
  note r' = r [unfolded numeral_2_eq_2 One_nat_def]
  show p: "0 < t0 m" using assms r by linarith
  show "rotation_matrix_to_quaternion_numpy m =
    normalized [(m ! 2 ! 1 - m ! 1 ! 2) * (0.5 / sqrt (t0 m)), 0.5 * sqrt (t0 m),
      (m ! 1 ! 0 + m ! 0 ! 1) * (0.5 / sqrt (t0 m)), (m ! 2 ! 0 + m ! 0 ! 2) * (0.5 / sqrt (t0 m))]"
    using assms p
    by (simp add: rotation_matrix_to_quaternion_numpy_def Let_def normalized_def numeral_2_eq_2 r')
qed

lemma numpy_y:
  assumes "m ! 0 ! 0 + m ! 1 ! 1 + m ! 2 ! 2 < 0" "m ! 1 ! 1 > m ! 0 ! 0" "m ! 2 ! 2 \<le> m ! 1 ! 1"
  shows "0 < t1 m" "rotation_matrix_to_quaternion_numpy m =
    normalized [(m ! 0 ! 2 - m ! 2 ! 0) * (0.5 / sqrt (t1 m)),
      (m ! 0 ! 1 + m ! 1 ! 0) * (0.5 / sqrt (t1 m)), 0.5 * sqrt (t1 m),
      (m ! 2 ! 1 + m ! 1 ! 2) * (0.5 / sqrt (t1 m))]"
proof -
  have r: "m ! 1 ! 1 - m ! 2 ! 2 - m ! 0 ! 0 + 1 = t1 m" by (simp add: t1_def transpose12_def)
  note r' = r [unfolded numeral_2_eq_2 One_nat_def]
  show p: "0 < t1 m" using assms r by linarith
  show "rotation_matrix_to_quaternion_numpy m =
    normalized [(m ! 0 ! 2 - m ! 2 ! 0) * (0.5 / sqrt (t1 m)),
      (m ! 0 ! 1 + m ! 1 ! 0) * (0.5 / sqrt (t1 m)), 0.5 * sqrt (t1 m),
      (m ! 2 ! 1 + m ! 1 ! 2) * (0.5 / sqrt (t1 m))]"
    using assms p
    by (simp add: rotation_matrix_to_quaternion_numpy_def Let_def normalized_def numeral_2_eq_2 r')
qed

lemma numpy_z_form:
  assumes "m ! 0 ! 0 + m ! 1 ! 1 + m ! 2 ! 2 < 0" "0 < t2 m"
    and "(m ! 1 ! 1 > m ! 0 ! 0 \<and> m ! 2 ! 2 > m ! 1 ! 1)
         \<or> (m ! 1 ! 1 \<le> m ! 0 ! 0 \<and> m ! 2 ! 2 > m ! 0 ! 0)"
  shows "rotation_matrix_to_quaternion_numpy m =
    normalized [(m ! 1 ! 0 - m ! 0 ! 1) * (0.5 / sqrt (t2 m)),
      (m ! 0 ! 2 + m ! 2 ! 0) * (0.5 / sqrt (t2 m)),
      (m ! 1 ! 2 + m ! 2 ! 1) * (0.5 / sqrt (t2 m)), 0.5 * sqrt (t2 m)]"
proof -
  have r: "m ! 2 ! 2 - m ! 0 ! 0 - m ! 1 ! 1 + 1 = t2 m" by (simp add: t2_def transpose12_def)
  note r' = r [unfolded numeral_2_eq_2 One_nat_def]
  from assms(3) show ?thesis
  proof
    assume "m ! 1 ! 1 > m ! 0 ! 0 \<and> m ! 2 ! 2 > m ! 1 ! 1"
    then show ?thesis using assms(1,2)
      by (simp add: rotation_matrix_to_quaternion_numpy_def Let_def normalized_def
            numeral_2_eq_2 r')
  next
    assume "m ! 1 ! 1 \<le> m ! 0 ! 0 \<and> m ! 2 ! 2 > m ! 0 ! 0"
    then show ?thesis using assms(1,2)
      by (simp add: rotation_matrix_to_quaternion_numpy_def Let_def normalized_def
            numeral_2_eq_2 r')
  qed
qed

lemma numpy_z:
  assumes "m ! 0 ! 0 + m ! 1 ! 1 + m ! 2 ! 2 < 0"
    and "(m ! 1 ! 1 > m ! 0 ! 0 \<and> m ! 2 ! 2 > m ! 1 ! 1)
         \<or> (m ! 1 ! 1 \<le> m ! 0 ! 0 \<and> m ! 2 ! 2 > m ! 0 ! 0)"
  shows "0 < t2 m" "rotation_matrix_to_quaternion_numpy m =
    normalized [(m ! 1 ! 0 - m ! 0 ! 1) * (0.5 / sqrt (t2 m)),
      (m ! 0 ! 2 + m ! 2 ! 0) * (0.5 / sqrt (t2 m)),
      (m ! 1 ! 2 + m ! 2 ! 1) * (0.5 / sqrt (t2 m)), 0.5 * sqrt (t2 m)]"
proof -
  have r: "m ! 2 ! 2 - m ! 0 ! 0 - m ! 1 ! 1 + 1 = t2 m" by (simp add: t2_def transpose12_def)
  show p: "0 < t2 m" using assms r by linarith
  show "rotation_matrix_to_quaternion_numpy m =
    normalized [(m ! 1 ! 0 - m ! 0 ! 1) * (0.5 / sqrt (t2 m)),
      (m ! 0 ! 2 + m ! 2 ! 0) * (0.5 / sqrt (t2 m)),
      (m ! 1 ! 2 + m ! 2 ! 1) * (0.5 / sqrt (t2 m)), 0.5 * sqrt (t2 m)]"
    by (rule numpy_z_form [OF assms(1) p assms(2)])
qed

lemma norm_list_pos:
  assumes "x \<in> set v" "x \<noteq> 0"
  shows "0 < norm_list v"
proof -
  have "x * x \<le> sum_list (map (\<lambda>x. x * x) v)" using assms(1)
  proof (induction v)
    case Nil
    then show ?case by simp
  next
    case (Cons y ys)
    have nn: "0 \<le> sum_list (map (\<lambda>x. x * x) ys)" by (rule sum_list_squares_nonneg)
    show ?case
    proof (cases "x = y")
      case True
      then show ?thesis using nn by simp
    next
      case False
      then have "x \<in> set ys" using Cons.prems by simp
      then have "x * x \<le> sum_list (map (\<lambda>x. x * x) ys)" by (rule Cons.IH)
      moreover have "0 \<le> y * y" by simp
      ultimately have "x * x \<le> y * y + sum_list (map (\<lambda>x. x * x) ys)" by linarith
      then show ?thesis by simp
    qed
  qed
  moreover have "0 < x * x" using assms(2) by (auto simp add: zero_less_mult_iff)
  ultimately have "0 < sum_list (map (\<lambda>x. x * x) v)" by linarith
  then show ?thesis by (simp add: norm_list_def)
qed

lemma sum_list_squares_scale:
  "sum_list (map (\<lambda>x. x * x * c) v) = sum_list (map (\<lambda>x. x * x) v) * (c :: real)"
  by (induction v) (simp_all add: algebra_simps)

lemma normalized_unit:
  assumes "0 < norm_list v"
  shows "\<exists>q. normalized v = Some q \<and> norm_list q = 1"
proof -
  let ?n = "norm_list v"
  have sq: "sum_list (map (\<lambda>x. x * x) v) = ?n * ?n"
    using sum_list_squares_nonneg [of v] by (simp add: norm_list_def)
  have "sum_list (map (\<lambda>x. x * x) (map (\<lambda>x. x / ?n) v))
          = sum_list (map (\<lambda>x. x * x * (1 / (?n * ?n))) v)"
    by (simp add: comp_def)
  also have "\<dots> = sum_list (map (\<lambda>x. x * x) v) * (1 / (?n * ?n))"
    by (rule sum_list_squares_scale)
  also have "\<dots> = 1" unfolding sq using assms by simp
  finally have "norm_list (map (\<lambda>x. x / ?n) v) = 1" by (simp add: norm_list_def)
  then show ?thesis using assms by (simp add: normalized_def)
qed

lemma numpy_unit: "\<exists>q. rotation_matrix_to_quaternion_numpy m = Some q \<and> norm_list q = 1"
proof -
  consider (w) "0 \<le> m ! 0 ! 0 + m ! 1 ! 1 + m ! 2 ! 2"
    | (x) "m ! 0 ! 0 + m ! 1 ! 1 + m ! 2 ! 2 < 0" "m ! 1 ! 1 \<le> m ! 0 ! 0" "m ! 2 ! 2 \<le> m ! 0 ! 0"
    | (y) "m ! 0 ! 0 + m ! 1 ! 1 + m ! 2 ! 2 < 0" "m ! 1 ! 1 > m ! 0 ! 0" "m ! 2 ! 2 \<le> m ! 1 ! 1"
    | (z) "m ! 0 ! 0 + m ! 1 ! 1 + m ! 2 ! 2 < 0"
        "(m ! 1 ! 1 > m ! 0 ! 0 \<and> m ! 2 ! 2 > m ! 1 ! 1)
         \<or> (m ! 1 ! 1 \<le> m ! 0 ! 0 \<and> m ! 2 ! 2 > m ! 0 ! 0)"
    by linarith
  then show ?thesis
  proof cases
    case w
    have "t3 m = 1 + (m ! 0 ! 0 + m ! 1 ! 1 + m ! 2 ! 2)" by (simp add: t3_def transpose12_def)
    then have "0 < t3 m" using w by linarith
    then have "0.5 * sqrt (t3 m) \<noteq> 0" by simp
    then show ?thesis unfolding numpy_w [OF w]
      by (intro normalized_unit norm_list_pos [of "0.5 * sqrt (t3 m)"]) simp_all
  next
    case x
    note f = numpy_x [OF x]
    have "0.5 * sqrt (t0 m) \<noteq> 0" using f(1) by simp
    then show ?thesis unfolding f(2)
      by (intro normalized_unit norm_list_pos [of "0.5 * sqrt (t0 m)"]) simp_all
  next
    case y
    note f = numpy_y [OF y]
    have "0.5 * sqrt (t1 m) \<noteq> 0" using f(1) by simp
    then show ?thesis unfolding f(2)
      by (intro normalized_unit norm_list_pos [of "0.5 * sqrt (t1 m)"]) simp_all
  next
    case z
    note f = numpy_z [OF z]
    have "0.5 * sqrt (t2 m) \<noteq> 0" using f(1) by simp
    then show ?thesis unfolding f(2)
      by (intro normalized_unit norm_list_pos [of "0.5 * sqrt (t2 m)"]) simp_all
  qed
qed

text \<open>
  C3. For every valid rotation matrix (orthonormal, determinant 1) both conversions return a
  quaternion, and its norm is 1; in exact arithmetic the norm is exactly 1, which is within
  \<open>1e-6\<close>.
\<close>

theorem unit_norm:
  assumes "is_rotation m"
  shows "(\<exists>q. rotation_matrix_to_quaternion_row m = Some q \<and> norm_list q = 1)
       \<and> (\<exists>q. rotation_matrix_to_quaternion_numpy m = Some q \<and> norm_list q = 1)"
  using rotation_row_unit [OF assms] numpy_unit by simp

theorem unit_norm_witness:
  "is_rotation [[1, 0, 0, 0], [0, - 7 / 25, 24 / 25, 0], [0, - 24 / 25, - 7 / 25, 0], [0, 0, 0, 1]]
   \<and> (\<exists>q. rotation_matrix_to_quaternion_row
             [[1, 0, 0, 0], [0, - 7 / 25, 24 / 25, 0], [0, - 24 / 25, - 7 / 25, 0], [0, 0, 0, 1]]
              = Some q \<and> norm_list q = 1)
   \<and> (\<exists>q. rotation_matrix_to_quaternion_numpy
             [[1, 0, 0, 0], [0, - 7 / 25, 24 / 25, 0], [0, - 24 / 25, - 7 / 25, 0], [0, 0, 0, 1]]
              = Some q \<and> norm_list q = 1)"
proof -
  have r: "is_rotation [[1, 0, 0, 0], [0, - 7 / 25, 24 / 25, 0], [0, - 24 / 25, - 7 / 25, 0], [0, 0, 0, 1]]"
    by (simp add: is_rotation_def)
  show ?thesis using r unit_norm [OF r] by simp
qed

subsection \<open>The array path and the batched path\<close>

text \<open>
  The entries of a rotation matrix satisfy the polynomial identities that make the four
  candidates rows of one symmetric matrix of rank one. Each identity is a combination of
  the orthonormality and cofactor equations, which the first step of each proof writes out.
\<close>

lemma rows_of_cofactors:
  fixes a b c d e f g h i :: real
  assumes ca: "e * i - f * h = a"
    and cb: "f * g - d * i = b"
    and cc: "d * h - e * g = c"
    and cd: "c * h - b * i = d"
    and ce: "a * i - c * g = e"
    and cf: "b * g - a * h = f"
    and cg: "b * f - c * e = g"
    and ch: "c * d - a * f = h"
    and ci: "a * e - b * d = i"
    and det: "a * (e * i - f * h) - b * (d * i - f * g) + c * (d * h - e * g) = 1"
  shows "a * a + b * b + c * c = 1"
    and "d * d + e * e + f * f = 1"
    and "g * g + h * h + i * i = 1"
    and "a * d + b * e + c * f = 0"
    and "a * g + b * h + c * i = 0"
    and "d * g + e * h + f * i = 0"
proof -
  have "(a * a + b * b + c * c) - (1) = (- a) * ((e * i - f * h) - a) + (- b) * ((f * g - d * i) - b) + (- c) * ((d * h - e * g) - c) + 1 * ((a * (e * i - f * h) - b * (d * i - f * g) + c * (d * h - e * g)) - 1)"
    by (simp add: algebra_simps)
  also have "\<dots> = 0"
    unfolding det unfolding ca cb cc by simp
  finally show "a * a + b * b + c * c = 1" by simp
  have "(d * d + e * e + f * f) - (1) = (- d) * ((c * h - b * i) - d) + (- e) * ((a * i - c * g) - e) + (- f) * ((b * g - a * h) - f) + 1 * ((a * (e * i - f * h) - b * (d * i - f * g) + c * (d * h - e * g)) - 1)"
    by (simp add: algebra_simps)
  also have "\<dots> = 0"
    unfolding det unfolding cd ce cf by simp
  finally show "d * d + e * e + f * f = 1" by simp
  have "(g * g + h * h + i * i) - (1) = (- g) * ((b * f - c * e) - g) + (- h) * ((c * d - a * f) - h) + (- i) * ((a * e - b * d) - i) + 1 * ((a * (e * i - f * h) - b * (d * i - f * g) + c * (d * h - e * g)) - 1)"
    by (simp add: algebra_simps)
  also have "\<dots> = 0"
    unfolding det unfolding cg ch ci by simp
  finally show "g * g + h * h + i * i = 1" by simp
  have "(a * d + b * e + c * f) - (0) = (- d) * ((e * i - f * h) - a) + (- e) * ((f * g - d * i) - b) + (- f) * ((d * h - e * g) - c)"
    by (simp add: algebra_simps)
  also have "\<dots> = 0"
    unfolding ca cb cc by simp
  finally show "a * d + b * e + c * f = 0" by simp
  have "(a * g + b * h + c * i) - (0) = (- g) * ((e * i - f * h) - a) + (- h) * ((f * g - d * i) - b) + (- i) * ((d * h - e * g) - c)"
    by (simp add: algebra_simps)
  also have "\<dots> = 0"
    unfolding ca cb cc by simp
  finally show "a * g + b * h + c * i = 0" by simp
  have "(d * g + e * h + f * i) - (0) = (- g) * ((c * h - b * i) - d) + (- h) * ((a * i - c * g) - e) + (- i) * ((b * g - a * h) - f)"
    by (simp add: algebra_simps)
  also have "\<dots> = 0"
    unfolding cd ce cf by simp
  finally show "d * g + e * h + f * i = 0" by simp
qed

lemma rank_one_identities:
  fixes a b c d e f g h i :: real
  assumes ca: "e * i - f * h = a"
    and cb: "f * g - d * i = b"
    and cc: "d * h - e * g = c"
    and cd: "c * h - b * i = d"
    and ce: "a * i - c * g = e"
    and cf: "b * g - a * h = f"
    and cg: "b * f - c * e = g"
    and ch: "c * d - a * f = h"
    and ci: "a * e - b * d = i"
    and n1: "a * a + d * d + g * g = 1"
    and n2: "b * b + e * e + h * h = 1"
    and n3: "c * c + f * f + i * i = 1"
    and o12: "a * b + d * e + g * h = 0"
    and o13: "a * c + d * f + g * i = 0"
    and o23: "b * c + e * f + h * i = 0"
    and r1: "a * a + b * b + c * c = 1"
    and r2: "d * d + e * e + f * f = 1"
    and r3: "g * g + h * h + i * i = 1"
    and p12: "a * d + b * e + c * f = 0"
    and p13: "a * g + b * h + c * i = 0"
    and p23: "d * g + e * h + f * i = 0"
  shows "(h - f) * (h - f) = (1 + a + e + i) * (1 + a - e - i)"
    and "(c - g) * (c - g) = (1 + a + e + i) * (1 - a + e - i)"
    and "(d - b) * (d - b) = (1 + a + e + i) * (1 - a - e + i)"
    and "(d + b) * (d + b) = (1 + a - e - i) * (1 - a + e - i)"
    and "(c + g) * (c + g) = (1 + a - e - i) * (1 - a - e + i)"
    and "(h + f) * (h + f) = (1 - a + e - i) * (1 - a - e + i)"
    and "(1 + a + e + i) * (d + b) = (h - f) * (c - g)"
    and "(1 + a + e + i) * (c + g) = (h - f) * (d - b)"
    and "(1 + a + e + i) * (h + f) = (c - g) * (d - b)"
    and "(1 + a - e - i) * (c - g) = (d + b) * (h - f)"
    and "(1 + a - e - i) * (h + f) = (d + b) * (c + g)"
    and "(1 + a - e - i) * (d - b) = (c + g) * (h - f)"
    and "(1 - a + e - i) * (d - b) = (h + f) * (c - g)"
    and "(1 - a + e - i) * (c + g) = (h + f) * (d + b)"
proof -
  have "((h - f) * (h - f)) - ((1 + a + e + i) * (1 + a - e - i)) = 1 * ((b * b + e * e + h * h) - 1) + 1 * ((c * c + f * f + i * i) - 1) + (- 1) * ((a * a + b * b + c * c) - 1) + 2 * ((e * i - f * h) - a)"
    by (simp add: algebra_simps)
  also have "\<dots> = 0"
    unfolding n2 n3 r1 ca by simp
  finally show "(h - f) * (h - f) = (1 + a + e + i) * (1 + a - e - i)" by simp
  have "((c - g) * (c - g)) - ((1 + a + e + i) * (1 - a + e - i)) = 1 * ((a * a + d * d + g * g) - 1) + 1 * ((c * c + f * f + i * i) - 1) + (- 1) * ((d * d + e * e + f * f) - 1) + 2 * ((a * i - c * g) - e)"
    by (simp add: algebra_simps)
  also have "\<dots> = 0"
    unfolding n1 n3 r2 ce by simp
  finally show "(c - g) * (c - g) = (1 + a + e + i) * (1 - a + e - i)" by simp
  have "((d - b) * (d - b)) - ((1 + a + e + i) * (1 - a - e + i)) = 1 * ((a * a + d * d + g * g) - 1) + 1 * ((b * b + e * e + h * h) - 1) + (- 1) * ((g * g + h * h + i * i) - 1) + 2 * ((a * e - b * d) - i)"
    by (simp add: algebra_simps)
  also have "\<dots> = 0"
    unfolding n1 n2 r3 ci by simp
  finally show "(d - b) * (d - b) = (1 + a + e + i) * (1 - a - e + i)" by simp
  have "((d + b) * (d + b)) - ((1 + a - e - i) * (1 - a + e - i)) = 1 * ((a * a + d * d + g * g) - 1) + 1 * ((b * b + e * e + h * h) - 1) + (- 1) * ((g * g + h * h + i * i) - 1) + (- 2) * ((a * e - b * d) - i)"
    by (simp add: algebra_simps)
  also have "\<dots> = 0"
    unfolding n1 n2 r3 ci by simp
  finally show "(d + b) * (d + b) = (1 + a - e - i) * (1 - a + e - i)" by simp
  have "((c + g) * (c + g)) - ((1 + a - e - i) * (1 - a - e + i)) = 1 * ((a * a + d * d + g * g) - 1) + 1 * ((c * c + f * f + i * i) - 1) + (- 1) * ((d * d + e * e + f * f) - 1) + (- 2) * ((a * i - c * g) - e)"
    by (simp add: algebra_simps)
  also have "\<dots> = 0"
    unfolding n1 n3 r2 ce by simp
  finally show "(c + g) * (c + g) = (1 + a - e - i) * (1 - a - e + i)" by simp
  have "((h + f) * (h + f)) - ((1 - a + e - i) * (1 - a - e + i)) = 1 * ((b * b + e * e + h * h) - 1) + 1 * ((c * c + f * f + i * i) - 1) + (- 1) * ((a * a + b * b + c * c) - 1) + (- 2) * ((e * i - f * h) - a)"
    by (simp add: algebra_simps)
  also have "\<dots> = 0"
    unfolding n2 n3 r1 ca by simp
  finally show "(h + f) * (h + f) = (1 - a + e - i) * (1 - a - e + i)" by simp
  have "((1 + a + e + i) * (d + b)) - ((h - f) * (c - g)) = (- 1) * ((f * g - d * i) - b) + (- 1) * ((c * h - b * i) - d) + 1 * ((a * b + d * e + g * h) - 0) + 1 * ((a * d + b * e + c * f) - 0)"
    by (simp add: algebra_simps)
  also have "\<dots> = 0"
    unfolding cb cd o12 p12 by simp
  finally show "(1 + a + e + i) * (d + b) = (h - f) * (c - g)" by simp
  have "((1 + a + e + i) * (c + g)) - ((h - f) * (d - b)) = (- 1) * ((d * h - e * g) - c) + (- 1) * ((b * f - c * e) - g) + 1 * ((a * c + d * f + g * i) - 0) + 1 * ((a * g + b * h + c * i) - 0)"
    by (simp add: algebra_simps)
  also have "\<dots> = 0"
    unfolding cc cg o13 p13 by simp
  finally show "(1 + a + e + i) * (c + g) = (h - f) * (d - b)" by simp
  have "((1 + a + e + i) * (h + f)) - ((c - g) * (d - b)) = (- 1) * ((b * g - a * h) - f) + (- 1) * ((c * d - a * f) - h) + 1 * ((b * c + e * f + h * i) - 0) + 1 * ((d * g + e * h + f * i) - 0)"
    by (simp add: algebra_simps)
  also have "\<dots> = 0"
    unfolding cf ch o23 p23 by simp
  finally show "(1 + a + e + i) * (h + f) = (c - g) * (d - b)" by simp
  have "((1 + a - e - i) * (c - g)) - ((d + b) * (h - f)) = (- 1) * ((d * h - e * g) - c) + 1 * ((b * f - c * e) - g) + 1 * ((a * c + d * f + g * i) - 0) + (- 1) * ((a * g + b * h + c * i) - 0)"
    by (simp add: algebra_simps)
  also have "\<dots> = 0"
    unfolding cc cg o13 p13 by simp
  finally show "(1 + a - e - i) * (c - g) = (d + b) * (h - f)" by simp
  have "((1 + a - e - i) * (h + f)) - ((d + b) * (c + g)) = (- 1) * ((b * g - a * h) - f) + (- 1) * ((c * d - a * f) - h) + (- 1) * ((b * c + e * f + h * i) - 0) + (- 1) * ((d * g + e * h + f * i) - 0)"
    by (simp add: algebra_simps)
  also have "\<dots> = 0"
    unfolding cf ch o23 p23 by simp
  finally show "(1 + a - e - i) * (h + f) = (d + b) * (c + g)" by simp
  have "((1 + a - e - i) * (d - b)) - ((c + g) * (h - f)) = (- 1) * ((c * h - b * i) - d) + 1 * ((f * g - d * i) - b) + 1 * ((a * d + b * e + c * f) - 0) + (- 1) * ((a * b + d * e + g * h) - 0)"
    by (simp add: algebra_simps)
  also have "\<dots> = 0"
    unfolding cd cb p12 o12 by simp
  finally show "(1 + a - e - i) * (d - b) = (c + g) * (h - f)" by simp
  have "((1 - a + e - i) * (d - b)) - ((h + f) * (c - g)) = (- 1) * ((c * h - b * i) - d) + 1 * ((f * g - d * i) - b) + 1 * ((a * b + d * e + g * h) - 0) + (- 1) * ((a * d + b * e + c * f) - 0)"
    by (simp add: algebra_simps)
  also have "\<dots> = 0"
    unfolding cd cb o12 p12 by simp
  finally show "(1 - a + e - i) * (d - b) = (h + f) * (c - g)" by simp
  have "((1 - a + e - i) * (c + g)) - ((h + f) * (d + b)) = (- 1) * ((d * h - e * g) - c) + (- 1) * ((b * f - c * e) - g) + (- 1) * ((a * c + d * f + g * i) - 0) + (- 1) * ((a * g + b * h + c * i) - 0)"
    by (simp add: algebra_simps)
  also have "\<dots> = 0"
    unfolding cc cg o13 p13 by simp
  finally show "(1 - a + e - i) * (c + g) = (h + f) * (d + b)" by simp
qed

lemma cofactors_of_orthonormal:
  fixes a b c d e f g h i :: real
  assumes n1: "a * a + d * d + g * g = 1" and n2: "b * b + e * e + h * h = 1"
    and n3: "c * c + f * f + i * i = 1"
    and o12: "a * b + d * e + g * h = 0" and o13: "a * c + d * f + g * i = 0"
    and o23: "b * c + e * f + h * i = 0"
    and det: "a * (e * i - f * h) - b * (d * i - f * g) + c * (d * h - e * g) = 1"
  shows "e * i - f * h = a" "f * g - d * i = b" "d * h - e * g = c"
    "c * h - b * i = d" "a * i - c * g = e" "b * g - a * h = f"
    "b * f - c * e = g" "c * d - a * f = h" "a * e - b * d = i"
proof -
  have "(c - (d * h - g * e)) * (c - (d * h - g * e)) + (f - (g * b - a * h)) * (f - (g * b - a * h))
        + (i - (a * e - d * b)) * (i - (a * e - d * b))
      = (c * c + f * f + i * i)
        - 2 * (a * (e * i - f * h) - b * (d * i - f * g) + c * (d * h - e * g))
        + ((a * a + d * d + g * g) * (b * b + e * e + h * h) - (a * b + d * e + g * h) * (a * b + d * e + g * h))"
    by (simp add: algebra_simps)
  also have "\<dots> = 0" unfolding n1 n2 n3 o12 det by simp
  finally have z3: "(c - (d * h - g * e)) * (c - (d * h - g * e)) + (f - (g * b - a * h)) * (f - (g * b - a * h))
        + (i - (a * e - d * b)) * (i - (a * e - d * b)) = 0" .
  have "(a - (e * i - h * f)) * (a - (e * i - h * f)) + (d - (h * c - b * i)) * (d - (h * c - b * i))
        + (g - (b * f - e * c)) * (g - (b * f - e * c))
      = (a * a + d * d + g * g)
        - 2 * (a * (e * i - f * h) - b * (d * i - f * g) + c * (d * h - e * g))
        + ((b * b + e * e + h * h) * (c * c + f * f + i * i) - (b * c + e * f + h * i) * (b * c + e * f + h * i))"
    by (simp add: algebra_simps)
  also have "\<dots> = 0" unfolding n1 n2 n3 o23 det by simp
  finally have z1: "(a - (e * i - h * f)) * (a - (e * i - h * f)) + (d - (h * c - b * i)) * (d - (h * c - b * i))
        + (g - (b * f - e * c)) * (g - (b * f - e * c)) = 0" .
  have "(b - (f * g - i * d)) * (b - (f * g - i * d)) + (e - (i * a - c * g)) * (e - (i * a - c * g))
        + (h - (c * d - f * a)) * (h - (c * d - f * a))
      = (b * b + e * e + h * h)
        - 2 * (a * (e * i - f * h) - b * (d * i - f * g) + c * (d * h - e * g))
        + ((c * c + f * f + i * i) * (a * a + d * d + g * g) - (a * c + d * f + g * i) * (a * c + d * f + g * i))"
    by (simp add: algebra_simps)
  also have "\<dots> = 0" unfolding n1 n2 n3 o13 det by simp
  finally have z2: "(b - (f * g - i * d)) * (b - (f * g - i * d)) + (e - (i * a - c * g)) * (e - (i * a - c * g))
        + (h - (c * d - f * a)) * (h - (c * d - f * a)) = 0" .
  show "e * i - f * h = a" using sq_sum3_zero(1) [OF z1] by (simp add: algebra_simps)
  show "c * h - b * i = d" using sq_sum3_zero(2) [OF z1] by (simp add: algebra_simps)
  show "b * f - c * e = g" using sq_sum3_zero(3) [OF z1] by (simp add: algebra_simps)
  show "f * g - d * i = b" using sq_sum3_zero(1) [OF z2] by (simp add: algebra_simps)
  show "a * i - c * g = e" using sq_sum3_zero(2) [OF z2] by (simp add: algebra_simps)
  show "c * d - a * f = h" using sq_sum3_zero(3) [OF z2] by (simp add: algebra_simps)
  show "d * h - e * g = c" using sq_sum3_zero(1) [OF z3] by (simp add: algebra_simps)
  show "b * g - a * h = f" using sq_sum3_zero(2) [OF z3] by (simp add: algebra_simps)
  show "a * e - b * d = i" using sq_sum3_zero(3) [OF z3] by (simp add: algebra_simps)
qed

lemma scaled_component:
  fixes ta tb x y s :: real
  assumes "0 < ta" "0 < tb" "tb * x = s * (sqrt ta * sqrt tb) * y"
  shows "x / sqrt ta * (1 / 2) = s * (y / sqrt tb * (1 / 2))"
proof -
  have A: "0 < sqrt ta" and B: "0 < sqrt tb" using assms by simp_all
  have "sqrt tb * sqrt tb = tb" using assms(2) by simp
  then have "sqrt tb * (sqrt tb * x) = sqrt tb * (s * sqrt ta * y)"
    using assms(3) by (simp add: algebra_simps)
  then have "sqrt tb * x = s * sqrt ta * y" using B by simp
  then show ?thesis using A B by (simp add: field_simps)
qed

lemma quaternion_up_to_sign:
  fixes ta tb k :: real
  assumes ta: "0 < ta" and tb: "0 < tb" and kk: "k * k = ta * tb"
    and e0: "tb * a0 = k * b0" and e1: "tb * a1 = k * b1"
    and e2: "tb * a2 = k * b2" and e3: "tb * a3 = k * b3"
  shows "map (\<lambda>x. x / sqrt ta * (1 / 2)) [a0, a1, a2, a3]
           = map (\<lambda>x. x / sqrt tb * (1 / 2)) [b0, b1, b2, b3]
       \<or> map (\<lambda>x. x / sqrt ta * (1 / 2)) [a0, a1, a2, a3]
           = map uminus (map (\<lambda>x. x / sqrt tb * (1 / 2)) [b0, b1, b2, b3])"
proof -
  have "sqrt (k * k) = sqrt ta * sqrt tb" unfolding kk by (rule real_sqrt_mult)
  then have ak: "\<bar>k\<bar> = sqrt ta * sqrt tb" by simp
  show ?thesis
  proof (cases "0 \<le> k")
    case True
    then have k: "k = 1 * (sqrt ta * sqrt tb)" using ak by simp
    have "x / sqrt ta * (1 / 2) = y / sqrt tb * (1 / 2)" if "tb * x = k * y" for x y
      using scaled_component [OF ta tb, of x 1 y] that k by simp
    then show ?thesis using e0 e1 e2 e3 by simp
  next
    case False
    then have k: "k = - 1 * (sqrt ta * sqrt tb)" using ak by simp
    have "x / sqrt ta * (1 / 2) = - (y / sqrt tb * (1 / 2))" if "tb * x = k * y" for x y
      using scaled_component [OF ta tb, of x "- 1" y] that k by simp
    then show ?thesis using e0 e1 e2 e3 by simp
  qed
qed

lemma rotation_pair_signs:
  assumes "is_rotation m"
  shows "0 < t0 m \<Longrightarrow> 0 < t3 m \<Longrightarrow>
           unit_of (t0 m) (q0 m) = unit_of (t3 m) (q3 m)
           \<or> unit_of (t0 m) (q0 m) = map uminus (unit_of (t3 m) (q3 m))"
    and "0 < t1 m \<Longrightarrow> 0 < t3 m \<Longrightarrow>
           unit_of (t1 m) (q1 m) = unit_of (t3 m) (q3 m)
           \<or> unit_of (t1 m) (q1 m) = map uminus (unit_of (t3 m) (q3 m))"
    and "0 < t2 m \<Longrightarrow> 0 < t3 m \<Longrightarrow>
           unit_of (t2 m) (q2 m) = unit_of (t3 m) (q3 m)
           \<or> unit_of (t2 m) (q2 m) = map uminus (unit_of (t3 m) (q3 m))"
    and "0 < t1 m \<Longrightarrow> 0 < t0 m \<Longrightarrow>
           unit_of (t1 m) (q1 m) = unit_of (t0 m) (q0 m)
           \<or> unit_of (t1 m) (q1 m) = map uminus (unit_of (t0 m) (q0 m))"
    and "0 < t2 m \<Longrightarrow> 0 < t0 m \<Longrightarrow>
           unit_of (t2 m) (q2 m) = unit_of (t0 m) (q0 m)
           \<or> unit_of (t2 m) (q2 m) = map uminus (unit_of (t0 m) (q0 m))"
    and "0 < t2 m \<Longrightarrow> 0 < t1 m \<Longrightarrow>
           unit_of (t2 m) (q2 m) = unit_of (t1 m) (q1 m)
           \<or> unit_of (t2 m) (q2 m) = map uminus (unit_of (t1 m) (q1 m))"
proof -
  let ?a = "m ! 0 ! 0" and ?b = "m ! 0 ! 1" and ?c = "m ! 0 ! 2"
  let ?d = "m ! 1 ! 0" and ?e = "m ! 1 ! 1" and ?f = "m ! 1 ! 2"
  let ?g = "m ! 2 ! 0" and ?h = "m ! 2 ! 1" and ?i = "m ! 2 ! 2"
  have r: "?a * ?a + ?d * ?d + ?g * ?g = 1" "?b * ?b + ?e * ?e + ?h * ?h = 1"
    "?c * ?c + ?f * ?f + ?i * ?i = 1" "?a * ?b + ?d * ?e + ?g * ?h = 0"
    "?a * ?c + ?d * ?f + ?g * ?i = 0" "?b * ?c + ?e * ?f + ?h * ?i = 0"
    "?a * (?e * ?i - ?f * ?h) - ?b * (?d * ?i - ?f * ?g) + ?c * (?d * ?h - ?e * ?g) = 1"
    using assms by (simp_all add: is_rotation_def Let_def)
  note co = cofactors_of_orthonormal [OF r]
  note ro = rows_of_cofactors [OF co r(7)]
  note id = rank_one_identities [OF co r(1-6) ro]
  have T: "t0 m = 1 + ?a - ?e - ?i" "t1 m = 1 - ?a + ?e - ?i" "t2 m = 1 - ?a - ?e + ?i"
    "t3 m = 1 + ?a + ?e + ?i"
    by (simp_all add: cand_defs transpose12_def)
  have Q: "q0 m = [?h - ?f, t0 m, ?d + ?b, ?c + ?g]" "q1 m = [?c - ?g, ?d + ?b, t1 m, ?h + ?f]"
    "q2 m = [?d - ?b, ?c + ?g, ?h + ?f, t2 m]" "q3 m = [t3 m, ?h - ?f, ?c - ?g, ?d - ?b]"
    by (simp_all add: q0_def q1_def q2_def q3_def transpose12_def)
  show "unit_of (t0 m) (q0 m) = unit_of (t3 m) (q3 m)
           \<or> unit_of (t0 m) (q0 m) = map uminus (unit_of (t3 m) (q3 m))"
    if p: "0 < t0 m" "0 < t3 m"
    unfolding unit_of_def Q
  proof (rule quaternion_up_to_sign [OF p, where k = "?h - ?f"])
    show "(?h - ?f) * (?h - ?f) = t0 m * t3 m" using id(1) by (simp add: T mult.commute)
    show "t3 m * (?h - ?f) = (?h - ?f) * t3 m" by simp
    show "t3 m * t0 m = (?h - ?f) * (?h - ?f)" using id(1) by (simp add: T)
    show "t3 m * (?d + ?b) = (?h - ?f) * (?c - ?g)" using id(7) by (simp add: T)
    show "t3 m * (?c + ?g) = (?h - ?f) * (?d - ?b)" using id(8) by (simp add: T)
  qed
  show "unit_of (t1 m) (q1 m) = unit_of (t3 m) (q3 m)
           \<or> unit_of (t1 m) (q1 m) = map uminus (unit_of (t3 m) (q3 m))"
    if p: "0 < t1 m" "0 < t3 m"
    unfolding unit_of_def Q
  proof (rule quaternion_up_to_sign [OF p, where k = "?c - ?g"])
    show "(?c - ?g) * (?c - ?g) = t1 m * t3 m" using id(2) by (simp add: T mult.commute)
    show "t3 m * (?c - ?g) = (?c - ?g) * t3 m" by simp
    show "t3 m * (?d + ?b) = (?c - ?g) * (?h - ?f)" using id(7) by (simp add: T mult.commute)
    show "t3 m * t1 m = (?c - ?g) * (?c - ?g)" using id(2) by (simp add: T)
    show "t3 m * (?h + ?f) = (?c - ?g) * (?d - ?b)" using id(9) by (simp add: T)
  qed
  show "unit_of (t2 m) (q2 m) = unit_of (t3 m) (q3 m)
           \<or> unit_of (t2 m) (q2 m) = map uminus (unit_of (t3 m) (q3 m))"
    if p: "0 < t2 m" "0 < t3 m"
    unfolding unit_of_def Q
  proof (rule quaternion_up_to_sign [OF p, where k = "?d - ?b"])
    show "(?d - ?b) * (?d - ?b) = t2 m * t3 m" using id(3) by (simp add: T mult.commute)
    show "t3 m * (?d - ?b) = (?d - ?b) * t3 m" by simp
    show "t3 m * (?c + ?g) = (?d - ?b) * (?h - ?f)" using id(8) by (simp add: T mult.commute)
    show "t3 m * (?h + ?f) = (?d - ?b) * (?c - ?g)" using id(9) by (simp add: T mult.commute)
    show "t3 m * t2 m = (?d - ?b) * (?d - ?b)" using id(3) by (simp add: T)
  qed
  show "unit_of (t1 m) (q1 m) = unit_of (t0 m) (q0 m)
           \<or> unit_of (t1 m) (q1 m) = map uminus (unit_of (t0 m) (q0 m))"
    if p: "0 < t1 m" "0 < t0 m"
    unfolding unit_of_def Q
  proof (rule quaternion_up_to_sign [OF p, where k = "?d + ?b"])
    show "(?d + ?b) * (?d + ?b) = t1 m * t0 m" using id(4) by (simp add: T mult.commute)
    show "t0 m * (?c - ?g) = (?d + ?b) * (?h - ?f)" using id(10) by (simp add: T)
    show "t0 m * (?d + ?b) = (?d + ?b) * t0 m" by simp
    show "t0 m * t1 m = (?d + ?b) * (?d + ?b)" using id(4) by (simp add: T)
    show "t0 m * (?h + ?f) = (?d + ?b) * (?c + ?g)" using id(11) by (simp add: T)
  qed
  show "unit_of (t2 m) (q2 m) = unit_of (t0 m) (q0 m)
           \<or> unit_of (t2 m) (q2 m) = map uminus (unit_of (t0 m) (q0 m))"
    if p: "0 < t2 m" "0 < t0 m"
    unfolding unit_of_def Q
  proof (rule quaternion_up_to_sign [OF p, where k = "?c + ?g"])
    show "(?c + ?g) * (?c + ?g) = t2 m * t0 m" using id(5) by (simp add: T mult.commute)
    show "t0 m * (?d - ?b) = (?c + ?g) * (?h - ?f)" using id(12) by (simp add: T)
    show "t0 m * (?c + ?g) = (?c + ?g) * t0 m" by simp
    show "t0 m * (?h + ?f) = (?c + ?g) * (?d + ?b)" using id(11) by (simp add: T mult.commute)
    show "t0 m * t2 m = (?c + ?g) * (?c + ?g)" using id(5) by (simp add: T)
  qed
  show "unit_of (t2 m) (q2 m) = unit_of (t1 m) (q1 m)
           \<or> unit_of (t2 m) (q2 m) = map uminus (unit_of (t1 m) (q1 m))"
    if p: "0 < t2 m" "0 < t1 m"
    unfolding unit_of_def Q
  proof (rule quaternion_up_to_sign [OF p, where k = "?h + ?f"])
    show "(?h + ?f) * (?h + ?f) = t2 m * t1 m" using id(6) by (simp add: T mult.commute)
    show "t1 m * (?d - ?b) = (?h + ?f) * (?c - ?g)" using id(13) by (simp add: T)
    show "t1 m * (?c + ?g) = (?h + ?f) * (?d + ?b)" using id(14) by (simp add: T)
    show "t1 m * (?h + ?f) = (?h + ?f) * t1 m" by simp
    show "t1 m * t2 m = (?h + ?f) * (?h + ?f)" using id(6) by (simp add: T)
  qed
qed

lemma same_up_to_sign_refl: "same_up_to_sign u u"
  by (simp add: same_up_to_sign_def)

lemma same_up_to_sign_sym: "same_up_to_sign u v \<Longrightarrow> same_up_to_sign v u"
  by (auto simp add: same_up_to_sign_def comp_def)

lemma rotation_all_pairs:
  assumes "is_rotation m" "(ta, qa) \<in> set (pivots m)" "(tb, qb) \<in> set (pivots m)"
    "0 < ta" "0 < tb"
  shows "same_up_to_sign (unit_of ta qa) (unit_of tb qb)"
proof -
  note s = rotation_pair_signs [OF assms(1), folded same_up_to_sign_def]
  have "(ta, qa) = (t0 m, q0 m) \<or> (ta, qa) = (t1 m, q1 m) \<or> (ta, qa) = (t2 m, q2 m)
        \<or> (ta, qa) = (t3 m, q3 m)"
    using assms(2) by (simp add: pivots_def)
  moreover have "(tb, qb) = (t0 m, q0 m) \<or> (tb, qb) = (t1 m, q1 m) \<or> (tb, qb) = (t2 m, q2 m)
        \<or> (tb, qb) = (t3 m, q3 m)"
    using assms(3) by (simp add: pivots_def)
  ultimately show ?thesis
    using assms(4,5) s same_up_to_sign_refl
    by (elim disjE) (auto intro: same_up_to_sign_sym)
qed

lemma torch_rotation_form:
  assumes "is_rotation m"
  shows "\<exists>t q. (t, q) \<in> set (pivots m) \<and> 0 < t
           \<and> rotation_matrix_to_quaternion_row m = Some (unit_of t q)"
proof -
  have e: "0 < eps" by (simp add: eps_def)
  have e1: "eps < 1" by (simp add: eps_def)
  note nn = rotation_pivots_nonneg [OF assms]
  have td: "t0 m = 1 + m ! 0 ! 0 - m ! 1 ! 1 - m ! 2 ! 2" "t1 m = 1 - m ! 0 ! 0 + m ! 1 ! 1 - m ! 2 ! 2"
    "t2 m = 1 - m ! 0 ! 0 - m ! 1 ! 1 + m ! 2 ! 2" "t3 m = 1 + m ! 0 ! 0 + m ! 1 ! 1 + m ! 2 ! 2"
    by (simp_all add: cand_defs transpose12_def)
  note pp = pivot_positive [OF nn td e e1]
  consider (b0) "m ! 2 ! 2 < eps" "m ! 0 ! 0 > m ! 1 ! 1"
    | (b1) "m ! 2 ! 2 < eps" "m ! 0 ! 0 \<le> m ! 1 ! 1"
    | (b2) "m ! 2 ! 2 \<ge> eps" "m ! 0 ! 0 < - (m ! 1 ! 1)"
    | (b3) "m ! 2 ! 2 \<ge> eps" "m ! 0 ! 0 \<ge> - (m ! 1 ! 1)"
    by linarith
  then show ?thesis
  proof cases
    case b0
    then have p: "0 < t0 m" by (rule pp(1))
    have "rotation_matrix_to_quaternion_row m = Some (unit_of (t0 m) (q0 m))"
      using b0 p by (simp add: row_of_masks mask_defs unit_of_def)
    then show ?thesis using p by (auto simp add: pivots_def)
  next
    case b1
    then have p: "0 < t1 m" by (rule pp(2))
    have "rotation_matrix_to_quaternion_row m = Some (unit_of (t1 m) (q1 m))"
      using b1 p by (simp add: row_of_masks mask_defs unit_of_def)
    then show ?thesis using p by (auto simp add: pivots_def)
  next
    case b2
    then have p: "0 < t2 m" by (rule pp(3))
    have "rotation_matrix_to_quaternion_row m = Some (unit_of (t2 m) (q2 m))"
      using b2 p by (simp add: row_of_masks mask_defs unit_of_def)
    then show ?thesis using p by (auto simp add: pivots_def)
  next
    case b3
    then have p: "0 < t3 m" by (rule pp(4))
    have "rotation_matrix_to_quaternion_row m = Some (unit_of (t3 m) (q3 m))"
      using b3 p by (simp add: row_of_masks mask_defs unit_of_def)
    then show ?thesis using p by (auto simp add: pivots_def)
  qed
qed

lemma normalized_of_unit:
  assumes "norm_list v = 1"
  shows "normalized v = Some v"
  using assms by (simp add: normalized_def)

lemma numpy_rotation_form:
  assumes "is_rotation m"
  shows "\<exists>t q. (t, q) \<in> set (pivots m) \<and> 0 < t
           \<and> rotation_matrix_to_quaternion_numpy m = Some (unit_of t q)"
proof -
  note ss = rotation_sums [OF assms]
  have sq: "t / (sqrt t * 2) = sqrt t / 2" if "0 < t" for t :: real
    using that by (simp add: real_div_sqrt)
  consider (w) "0 \<le> m ! 0 ! 0 + m ! 1 ! 1 + m ! 2 ! 2"
    | (x) "m ! 0 ! 0 + m ! 1 ! 1 + m ! 2 ! 2 < 0" "m ! 1 ! 1 \<le> m ! 0 ! 0" "m ! 2 ! 2 \<le> m ! 0 ! 0"
    | (y) "m ! 0 ! 0 + m ! 1 ! 1 + m ! 2 ! 2 < 0" "m ! 1 ! 1 > m ! 0 ! 0" "m ! 2 ! 2 \<le> m ! 1 ! 1"
    | (z) "m ! 0 ! 0 + m ! 1 ! 1 + m ! 2 ! 2 < 0"
        "(m ! 1 ! 1 > m ! 0 ! 0 \<and> m ! 2 ! 2 > m ! 1 ! 1)
         \<or> (m ! 1 ! 1 \<le> m ! 0 ! 0 \<and> m ! 2 ! 2 > m ! 0 ! 0)"
    by linarith
  then show ?thesis
  proof cases
    case w
    have "t3 m = 1 + (m ! 0 ! 0 + m ! 1 ! 1 + m ! 2 ! 2)" by (simp add: t3_def transpose12_def)
    then have p: "0 < t3 m" using w by linarith
    have "rotation_matrix_to_quaternion_numpy m = normalized (unit_of (t3 m) (q3 m))"
      unfolding numpy_w [OF w] by (simp add: unit_of_def q3_def transpose12_def sq [OF p] mult.commute)
    also have "\<dots> = Some (unit_of (t3 m) (q3 m))"
      unfolding unit_of_def by (rule normalized_of_unit [OF norm_scaled [OF p ss(4)]])
    finally show ?thesis using p by (auto simp add: pivots_def)
  next
    case x
    note f = numpy_x [OF x]
    have "rotation_matrix_to_quaternion_numpy m = normalized (unit_of (t0 m) (q0 m))"
      unfolding f(2) by (simp add: unit_of_def q0_def transpose12_def sq [OF f(1)] add.commute mult.commute)
    also have "\<dots> = Some (unit_of (t0 m) (q0 m))"
      unfolding unit_of_def by (rule normalized_of_unit [OF norm_scaled [OF f(1) ss(1)]])
    finally show ?thesis using f(1) by (auto simp add: pivots_def)
  next
    case y
    note f = numpy_y [OF y]
    have "rotation_matrix_to_quaternion_numpy m = normalized (unit_of (t1 m) (q1 m))"
      unfolding f(2) by (simp add: unit_of_def q1_def transpose12_def sq [OF f(1)] add.commute mult.commute)
    also have "\<dots> = Some (unit_of (t1 m) (q1 m))"
      unfolding unit_of_def by (rule normalized_of_unit [OF norm_scaled [OF f(1) ss(2)]])
    finally show ?thesis using f(1) by (auto simp add: pivots_def)
  next
    case z
    note f = numpy_z [OF z]
    have "rotation_matrix_to_quaternion_numpy m = normalized (unit_of (t2 m) (q2 m))"
      unfolding f(2) by (simp add: unit_of_def q2_def transpose12_def sq [OF f(1)] add.commute mult.commute)
    also have "\<dots> = Some (unit_of (t2 m) (q2 m))"
      unfolding unit_of_def by (rule normalized_of_unit [OF norm_scaled [OF f(1) ss(3)]])
    finally show ?thesis using f(1) by (auto simp add: pivots_def)
  qed
qed

lemma rotation_paths_agree_up_to_sign:
  assumes "is_rotation m"
  shows "\<exists>u v. rotation_matrix_to_quaternion_numpy m = Some u
           \<and> rotation_matrix_to_quaternion_row m = Some v \<and> same_up_to_sign u v"
proof -
  obtain ta qa where a: "(ta, qa) \<in> set (pivots m)" "0 < ta"
    "rotation_matrix_to_quaternion_numpy m = Some (unit_of ta qa)"
    using numpy_rotation_form [OF assms] by blast
  obtain tb qb where b: "(tb, qb) \<in> set (pivots m)" "0 < tb"
    "rotation_matrix_to_quaternion_row m = Some (unit_of tb qb)"
    using torch_rotation_form [OF assms] by blast
  show ?thesis
    using rotation_all_pairs [OF assms a(1) b(1) a(2) b(2)] a(3) b(3) by blast
qed

lemma general_row:
  assumes "norm_list [qw, qx, qy, qz] \<noteq> 0" "sin_squared_of [qw, qx, qy, qz] > eps"
  shows "quaternion_to_angle_axis_row (qw, qx, qy, qz) =
    (let n = 1 / norm_list [qw, qx, qy, qz]; s = sqrt (sin_squared_of [qw, qx, qy, qz]);
         c = cos_theta_of [qw, qx, qy, qz];
         k = 2 * (if c < eps then atan2 (- s) (- c) else atan2 s c) / s
     in Some (qx * n * k, qy * n * k, qz * n * k))"
proof -
  have "0 < eps" by (simp add: eps_def)
  then have "0 < sin_squared_of [qw, qx, qy, qz]" using assms(2) by linarith
  then have "sqrt (sin_squared_of [qw, qx, qy, qz]) \<noteq> 0" by simp
  then show ?thesis using assms
    by (simp add: quaternion_to_angle_axis_row_def sin_squared_of_def cos_theta_of_def Let_def
        byte_of_def type_as_def)
qed

lemma general_paths_agree:
  assumes "norm_list [qw, qx, qy, qz] \<noteq> 0" "sin_squared_of [qw, qx, qy, qz] > eps"
    "cos_theta_of [qw, qx, qy, qz] < 0 \<or> eps \<le> cos_theta_of [qw, qx, qy, qz]"
  shows "\<exists>v. quaternion_to_angle_axis_row (qw, qx, qy, qz) = Some v
           \<and> quaternion_to_angle_axis_numpy [qw, qx, qy, qz] = Inr (Some (list_of_vec3 v))"
proof -
  let ?q = "[qw, qx, qy, qz]"
  have e: "0 < eps" by (simp add: eps_def)
  then have sp: "0 < sin_squared_of ?q" using assms(2) by linarith
  have np: "quaternion_to_angle_axis_numpy ?q =
     Inr (Some (let n = 1 / norm_list ?q; s = sqrt (sin_squared_of ?q); c = cos_theta_of ?q;
                    k = 2 * (if c < 0 then atan2 (- s) (- c) else atan2 s c) / s
                in [qx * n * k, qy * n * k, qz * n * k]))"
    using pos_sin_numpy [of ?q, OF _ assms(1) sp] by (simp add: cos_theta_of_def Let_def)
  from assms(3) show ?thesis
  proof
    assume "cos_theta_of ?q < 0"
    then have "cos_theta_of ?q < eps" using e by linarith
    then show ?thesis
      unfolding general_row [OF assms(1,2)] np using \<open>cos_theta_of ?q < 0\<close>
      by (simp add: Let_def list_of_vec3_def)
  next
    assume "eps \<le> cos_theta_of ?q"
    then have "\<not> cos_theta_of ?q < eps" "\<not> cos_theta_of ?q < 0" using e by linarith+
    then show ?thesis
      unfolding general_row [OF assms(1,2)] np
      by (simp add: Let_def list_of_vec3_def)
  qed
qed

lemma sqrt_values: "sqrt (64 / 25) = 8 / 5" "sqrt (36 / 25) = 6 / 5"
  by (rule real_sqrt_unique; simp add: power2_eq_square)+

text \<open>
  Where the two paths agree on equivalent inputs (an array and a batch of one holding the
  same numbers): the axis-angle to matrix paths return the same matrix when
  \<open>theta2 \<le> float32_eps\<close>; for every valid rotation matrix the matrix to quaternion paths
  return unit quaternions that are equal or antipodal; the quaternion to axis-angle paths
  return the same vector when \<open>sin_squared > eps\<close> and the normalized scalar part is negative
  or at least \<open>eps\<close>.
\<close>

lemma paths_agree:
  "(ax * ax + ay * ay + az * az \<le> float32_eps \<longrightarrow>
      (\<exists>M. angle_axis_to_rotation_matrix_torch [(ax, ay, az)] = [M]
          \<and> angle_axis_to_rotation_matrix_numpy [ax, ay, az] = Inr M))
   \<and> (is_rotation m \<longrightarrow>
      (\<exists>u v. rotation_matrix_to_quaternion_numpy m = Some u
          \<and> rotation_matrix_to_quaternion_torch [m] = [Some v] \<and> same_up_to_sign u v))
   \<and> (norm_list [qw, qx, qy, qz] \<noteq> 0 \<and> sin_squared_of [qw, qx, qy, qz] > eps
        \<and> (cos_theta_of [qw, qx, qy, qz] < 0 \<or> eps \<le> cos_theta_of [qw, qx, qy, qz]) \<longrightarrow>
      (\<exists>v. quaternion_to_angle_axis_torch [(qw, qx, qy, qz)] = [Some v]
          \<and> quaternion_to_angle_axis_numpy [qw, qx, qy, qz] = Inr (Some (list_of_vec3 v))))"
proof (intro conjI impI)
  assume a: "ax * ax + ay * ay + az * az \<le> float32_eps"
  have "float32_eps \<le> eps" by (simp add: float32_eps_def eps_def)
  then have "ax * ax + ay * ay + az * az \<le> eps" using a by linarith
  then show "\<exists>M. angle_axis_to_rotation_matrix_torch [(ax, ay, az)] = [M]
          \<and> angle_axis_to_rotation_matrix_numpy [ax, ay, az] = Inr M"
    using a by (simp add: angle_axis_to_rotation_matrix_torch_def taylor_row taylor_numpy)
next
  assume "is_rotation m"
  then show "\<exists>u v. rotation_matrix_to_quaternion_numpy m = Some u
          \<and> rotation_matrix_to_quaternion_torch [m] = [Some v] \<and> same_up_to_sign u v"
    using rotation_paths_agree_up_to_sign [of m]
    by (simp add: rotation_matrix_to_quaternion_torch_def)
next
  assume "norm_list [qw, qx, qy, qz] \<noteq> 0 \<and> sin_squared_of [qw, qx, qy, qz] > eps
        \<and> (cos_theta_of [qw, qx, qy, qz] < 0 \<or> eps \<le> cos_theta_of [qw, qx, qy, qz])"
  then show "\<exists>v. quaternion_to_angle_axis_torch [(qw, qx, qy, qz)] = [Some v]
          \<and> quaternion_to_angle_axis_numpy [qw, qx, qy, qz] = Inr (Some (list_of_vec3 v))"
    using general_paths_agree [of qw qx qy qz]
    by (simp add: quaternion_to_angle_axis_torch_def)
qed

text \<open>
  The rotation by about 106 degrees about the first axis, clockwise: the array path takes the
  trace branch and returns \<open>[3/5, -4/5, 0, 0]\<close>, the batched path takes branch 0 and returns
  the antipodal quaternion.
\<close>

lemma antipodal_paths_example:
  "rotation_matrix_to_quaternion
     (NdArray2 4 4 [1, 0, 0, 0, 0, - 7 / 25, 24 / 25, 0, 0, - 24 / 25, - 7 / 25, 0, 0, 0, 0, 1])
     = Returns (NdArray1 [3 / 5, - 4 / 5, 0, 0])
   \<and> rotation_matrix_to_quaternion
     (Tensor [1, 4, 4] [1, 0, 0, 0, 0, - 7 / 25, 24 / 25, 0, 0, - 24 / 25, - 7 / 25, 0, 0, 0, 0, 1])
     = Returns (Tensor [1, 4] [- 3 / 5, 4 / 5, 0, 0])"
proof -
  let ?m = "[[1, 0, 0, 0], [0, - 7 / 25, 24 / 25, 0], [0, - 24 / 25, - 7 / 25, 0], [0, 0, 0, 1]] :: matrix"
  have r: "rows_of 4 4 [1, 0, 0, 0, 0, - 7 / 25, 24 / 25, 0, 0, - 24 / 25, - 7 / 25, 0, 0, 0, 0, 1] = ?m"
    by (simp add: rows_of_def upt_rec)
  have r1: "rows_of 1 (4 * 4) [1, 0, 0, 0, 0, - 7 / 25, 24 / 25, 0, 0, - 24 / 25, - 7 / 25, 0, 0, 0, 0, 1 :: real]
      = [[1, 0, 0, 0, 0, - 7 / 25, 24 / 25, 0, 0, - 24 / 25, - 7 / 25, 0, 0, 0, 0, 1]]"
    by (simp add: rows_of_def)
  have a: "rotation_matrix_to_quaternion_row ?m = Some [- 3 / 5, 4 / 5, 0, 0]"
    by (simp add: row_of_masks mask_defs eps_def cand_defs sqrt_values)
  have w: "(0::real) \<le> ?m ! 0 ! 0 + ?m ! 1 ! 1 + ?m ! 2 ! 2" by simp
  have n: "norm_list [3 / 5, - (4 / 5), 0, 0] = 1"
    by (simp add: norm_list_def)
  have b: "rotation_matrix_to_quaternion_numpy ?m = Some [3 / 5, - 4 / 5, 0, 0]"
    unfolding numpy_w [OF w] by (simp add: cand_defs transpose12_def sqrt_values normalized_def n)
  show ?thesis
    by (simp add: rotation_matrix_to_quaternion_def r [simplified] r1 [simplified]
          a [simplified] b [simplified] rotation_matrix_to_quaternion_torch_def)
qed

text \<open>
  C7. The claim: on equivalent inputs the array path and the batched path of each converter
  return numerically consistent results. The quaternion to axis-angle paths do not: for the
  identity quaternion the array path returns \<open>[0, 0, 0]\<close> and the batched path NaN (the
  division \<open>two_theta / sin_theta\<close> for every row), and for a unit quaternion with scalar
  part about \<open>5e-7\<close> the array path returns an angle just below \<open>pi\<close> and the batched path
  that angle minus \<open>2 * pi\<close> (the test \<open>cos_theta < eps\<close> where the array path tests
  \<open>cos_theta < 0\<close>).
\<close>

theorem reference_and_batched_paths_differ:
  "quaternion_to_angle_axis (NdArray1 [1, 0, 0, 0]) = Returns (NdArray1 [0, 0, 0])
   \<and> quaternion_to_angle_axis (Tensor [1, 4] [1, 0, 0, 0]) = NonFinite
   \<and> quaternion_to_angle_axis
        (NdArray1 [8000000 / 16000000000001, 15999999999999 / 16000000000001, 0, 0])
     = Returns (NdArray1 [2 * arctan (15999999999999 / 8000000), 0, 0])
   \<and> quaternion_to_angle_axis
        (Tensor [1, 4] [8000000 / 16000000000001, 15999999999999 / 16000000000001, 0, 0])
     = Returns (Tensor [1, 3] [2 * arctan (15999999999999 / 8000000) - 2 * pi, 0, 0])"
proof -
  have a: "quaternion_to_angle_axis (NdArray1 [1, 0, 0, 0]) = Returns (NdArray1 [0, 0, 0])"
    by (simp add: quaternion_to_angle_axis_def quaternion_to_angle_axis_numpy_def
        norm_list_def Let_def)
  have b: "quaternion_to_angle_axis (Tensor [1, 4] [1, 0, 0, 0]) = NonFinite"
    by (simp add: quaternion_to_angle_axis_def quaternion_to_angle_axis_torch_def rows_of_def
        quat_of_def quaternion_to_angle_axis_row_def norm_list_def Let_def)
  have c: "quaternion_to_angle_axis
        (NdArray1 [8000000 / 16000000000001, 15999999999999 / 16000000000001, 0, 0])
     = Returns (NdArray1 [2 * arctan (15999999999999 / 8000000), 0, 0])"
    using near_half_turn_array(1) [OF near_half_turn_quaternion(1,2,4)]
    by (simp add: quaternion_to_angle_axis_def near_half_turn_quaternion(5))
  have d: "quaternion_to_angle_axis
        (Tensor [1, 4] [8000000 / 16000000000001, 15999999999999 / 16000000000001, 0, 0])
     = Returns (Tensor [1, 3] [2 * arctan (15999999999999 / 8000000) - 2 * pi, 0, 0])"
    using near_half_turn_batched(1) [OF near_half_turn_quaternion(1-4)]
    by (simp add: quaternion_to_angle_axis_def quaternion_to_angle_axis_torch_def rows_of_def
        quat_of_def list_of_vec3_def near_half_turn_quaternion(5))
  show ?thesis using a b c d by blast
qed

subsection \<open>The round trip from an axis-angle vector\<close>

lemma eps_bounds: "0 < eps" "eps < 1 / 1000" "eps = 1 / 10 ^ 6"
  by (simp_all add: eps_def)

lemma cos_eps_large: "9 / 10 < cos eps"
proof -
  have e: "0 < eps" "eps < 1 / 1000" by (rule eps_bounds)+
  have "eps < pi / 2" using e pi_ge_two by linarith
  then have c0: "0 < cos eps" using e cos_gt_zero by blast
  have s: "sin eps \<le> eps" using sin_x_le_x e by (simp add: less_imp_le)
  have s0: "0 \<le> sin eps" using sin_ge_zero [of eps] e pi_ge_two by linarith
  have "(sin eps)\<^sup>2 \<le> eps\<^sup>2" using s s0 by (simp add: power_mono)
  also have "\<dots> < 19 / 100" by (simp add: eps_def power2_eq_square)
  finally have "(cos eps)\<^sup>2 > 81 / 100"
    using sin_cos_squared_add [of eps] by linarith
  then have "(9 / 10)\<^sup>2 < (cos eps)\<^sup>2" by (simp add: power2_eq_square)
  moreover have "0 \<le> cos eps" using c0 by simp
  ultimately show ?thesis by (rule power2_less_imp_less)
qed

lemma half_turn_matrix:
  fixes th :: real
  assumes "1 < th"
  shows "angle_axis_to_rotation_matrix_row (0, 0, th) =
    [[cos th, - (th / (th + eps) * sin th), 0, 0],
     [th / (th + eps) * sin th, cos th, 0, 0],
     [0, 0, cos th + th / (th + eps) * (th / (th + eps)) * (1 - cos th), 0],
     [0, 0, 0, 1]]"
proof -
  have "1 * 1 < th * th" by (rule mult_strict_mono) (use assms in simp_all)
  then have "eps < th * th" using eps_bounds by linarith
  moreover have "sqrt (th * th) = th" using assms by simp
  ultimately show ?thesis
    by (simp add: eye4 angle_axis_to_rotation_matrix_row_def compute_rotation_matrix_def
        compute_rotation_matrix_taylor_def Let_def set_block3_def madd_def smul_def
        byte_of_def type_as_def)
qed

lemma z_pivot_row:
  fixes B C D :: real
  assumes "C < 0" "eps \<le> D" 
  shows "rotation_matrix_to_quaternion_row [[C, - B, 0, 0], [B, C, 0, 0], [0, 0, D, 0], [0, 0, 0, 1]]
     = Some [(2 * B) / sqrt (1 - 2 * C + D) * (1 / 2), 0, 0,
             (1 - 2 * C + D) / sqrt (1 - 2 * C + D) * (1 / 2)]"
proof -
  have "0 < 1 - 2 * C + D" using assms eps_bounds(1) by linarith
  then show ?thesis using assms
    by (simp add: row_of_masks mask_defs cand_defs)
qed

lemma near_half_turn_row:
  fixes qw qz :: real
  assumes "0 < qw" "0 < qz" "qw < eps * qz"
  shows "\<exists>r. quaternion_to_angle_axis_row (qw, 0, 0, qz) = Some (0, 0, r) \<and> r < - pi"
proof -
  let ?N = "norm_list [qw, 0, 0, qz]"
  have e: "0 < eps" "eps < 1 / 1000" by (rule eps_bounds)+
  have N2: "?N * ?N = qw * qw + qz * qz"
    by (simp add: norm_list_def)
  have Np: "0 < ?N" using assms by (simp add: norm_list_def add_pos_pos)
  have qwz: "qw < qz"
  proof -
    have "eps < 1" using e by linarith
    then have "eps * qz < 1 * qz" by (rule mult_strict_right_mono) (rule assms(2))
    then show ?thesis using assms(3) by simp
  qed
  have "qz * qz < ?N * ?N" unfolding N2 using assms(1) by (simp add: zero_less_mult_iff)
  then have "qz\<^sup>2 < ?N\<^sup>2" by (simp only: power2_eq_square)
  moreover have "0 \<le> ?N" using Np by simp
  ultimately have Nz: "qz < ?N" by (rule power2_less_imp_less)
  have "qw * qw < qz * qz" using qwz assms(1) by (simp add: mult_strict_mono less_imp_le)
  then have "?N * ?N < 2 * (qz * qz)" unfolding N2 by simp
  let ?s = "qz / ?N" and ?c = "qw / ?N"
  have sp: "0 < ?s" using assms Np by simp
  have cp: "0 < ?c" using assms Np by simp
  have s2: "eps < ?s * ?s"
  proof -
    have "?s * ?s = qz * qz / (?N * ?N)" by simp
    also have "\<dots> > 1 / 2" using \<open>?N * ?N < 2 * (qz * qz)\<close> Np
      by (simp add: field_simps)
    finally show ?thesis using e by linarith
  qed
  have c2: "?c < eps"
  proof -
    have "?c < qw / qz" using Nz assms by (simp add: frac_less2)
    also have "\<dots> < eps" using assms by (simp add: field_simps)
    finally show ?thesis .
  qed
  have sq: "sqrt (qz * qz / (?N * ?N)) = ?s"
  proof -
    have "qz * qz / (?N * ?N) = ?s * ?s" by simp
    then show ?thesis by (simp only: real_sqrt_abs2 abs_of_pos [OF sp])
  qed
  have s2': "eps < qz * qz / (?N * ?N)" using s2 by simp
  have at: "atan2 (- ?s) (- ?c) = arctan (qz / qw) - pi"
    using sp cp Np by (simp add: atan2_def)
  have "arctan (qz / qw) < pi / 2" by (rule arctan_ubound)
  then have lt: "2 * (arctan (qz / qw) - pi) < - pi" by simp
  have nz: "?N \<noteq> 0" "qz \<noteq> 0" using Np assms(2) by simp_all
  have "quaternion_to_angle_axis_row (qw, 0, 0, qz) = Some (0, 0, 2 * (arctan (qz / qw) - pi))"
    using nz s2' c2
    by (simp add: quaternion_to_angle_axis_row_def Let_def byte_of_def type_as_def sq at)
  then show ?thesis using lt by blast
qed

lemma near_pi_numbers:
  fixes th lam D t :: real
  assumes th_def: "th = pi - eps"
    and lam_def: "lam = th / (th + eps)"
    and D_def: "D = cos th + lam * lam * (1 - cos th)"
    and t_def: "t = 1 - 2 * cos th + D"
  shows "1 < th" "cos th < 0" "eps \<le> D" "0 < t"
    "0 < 2 * (lam * sin th) / sqrt t * (1 / 2)"
    "0 < t / sqrt t * (1 / 2)"
    "2 * (lam * sin th) / sqrt t * (1 / 2) < eps * (t / sqrt t * (1 / 2))"
proof -
  have e: "0 < eps" "eps < 1 / 1000" by (rule eps_bounds)+
  show th1: "1 < th" unfolding th_def using pi_ge_two e by linarith
  have c: "cos th = - cos eps" unfolding th_def by (rule cos_pi_minus)
  have s: "sin th = sin eps" unfolding th_def by (rule sin_pi_minus)
  have c9: "9 / 10 < cos eps" by (rule cos_eps_large)
  have c1: "cos eps \<le> 1" by simp
  show "cos th < 0" unfolding c using c9 by linarith
  have sp: "0 < sin eps" using sin_gt_zero [of eps] e pi_ge_two by linarith
  have se: "sin eps \<le> eps" using sin_x_le_x [of eps] e by simp
  have lam34: "3 / 4 \<le> lam" unfolding lam_def using th1 e by (simp add: field_simps)
  have lam1: "lam \<le> 1" unfolding lam_def using th1 e by (simp add: field_simps)
  have L: "9 / 16 \<le> lam * lam"
  proof -
    have "(3 / 4) * (3 / 4) \<le> lam * lam" by (rule mult_mono) (use lam34 in simp_all)
    then show ?thesis by simp
  qed
  have P: "(9 / 16) * (19 / 10) \<le> lam * lam * (1 + cos eps)"
    by (rule mult_mono) (use L c9 in simp_all)
  have Dv: "D = - cos eps + lam * lam * (1 + cos eps)" unfolding D_def c by simp
  show "eps \<le> D" unfolding Dv using P c1 e by linarith
  have tv: "t = 1 + cos eps + lam * lam * (1 + cos eps)" unfolding t_def Dv c by simp
  have t29: "29 / 10 < t" unfolding tv using P c9 by linarith
  then show tp: "0 < t" by linarith
  then have st: "0 < sqrt t" by simp
  have Bp: "0 < lam * sin th" unfolding s using lam34 sp by (simp add: zero_less_mult_iff)
  have Ble: "lam * sin th \<le> eps"
  proof -
    have "lam * sin eps \<le> 1 * sin eps" by (rule mult_right_mono) (use lam1 sp in simp_all)
    then show ?thesis unfolding s using se by linarith
  qed
  show "0 < 2 * (lam * sin th) / sqrt t * (1 / 2)" using Bp st by simp
  show "0 < t / sqrt t * (1 / 2)" using tp st by simp
  have "2 * (lam * sin th) < eps * t"
  proof -
    have "eps * (29 / 10) < eps * t" by (rule mult_strict_left_mono) (use t29 e in simp_all)
    then show ?thesis using Ble e by linarith
  qed
  then have "2 * (lam * sin th) / sqrt t < eps * t / sqrt t"
    using st by (simp add: divide_strict_right_mono)
  then show "2 * (lam * sin th) / sqrt t * (1 / 2) < eps * (t / sqrt t * (1 / 2))"
    by simp
qed

lemma batch_of_one_axis_angle:
  "angle_axis_to_rotation_matrix (Tensor [1, 3] [x, y, z])
     = Returns (Tensor [1, 4, 4] (concat (angle_axis_to_rotation_matrix_row (x, y, z))))"
  by (simp add: angle_axis_to_rotation_matrix_def angle_axis_to_rotation_matrix_torch_def
        rows_of_def vec3_of_def)

lemma batch_of_one_matrix:
  assumes "rotation_matrix_to_quaternion_row
             [[a0, a1, a2, a3], [b0, b1, b2, b3], [c0, c1, c2, c3], [d0, d1, d2, d3]] = Some q"
  shows "rotation_matrix_to_quaternion
           (Tensor [1, 4, 4] [a0, a1, a2, a3, b0, b1, b2, b3, c0, c1, c2, c3, d0, d1, d2, d3])
         = Returns (Tensor [1, 4] q)"
proof -
  have "rows_of 4 4 [a0, a1, a2, a3, b0, b1, b2, b3, c0, c1, c2, c3, d0, d1, d2, d3]
          = [[a0, a1, a2, a3], [b0, b1, b2, b3], [c0, c1, c2, c3], [d0, d1, d2, d3]]"
    by (simp add: rows_of_def upt_rec)
  then show ?thesis using assms
    by (simp add: rotation_matrix_to_quaternion_def rotation_matrix_to_quaternion_torch_def
          rows_of_def)
qed

lemma batch_of_one_quaternion:
  assumes "quaternion_to_angle_axis_row (qw, qx, qy, qz) = Some (a, b, c)"
  shows "quaternion_to_angle_axis (Tensor [1, 4] [qw, qx, qy, qz])
           = Returns (Tensor [1, 3] [a, b, c])"
  using assms
  by (simp add: quaternion_to_angle_axis_def quaternion_to_angle_axis_torch_def rows_of_def
        quat_of_def list_of_vec3_def)

text \<open>
  C1. The claim: for every axis-angle vector of length below \<open>pi\<close> the round trip through the
  rotation matrix returns the vector, within \<open>1e-5\<close>. On the batched path it does not when
  the length is within about \<open>2e-6\<close> of \<open>pi\<close>: for the vector \<open>(0, 0, pi - eps)\<close> the
  normalized scalar part of the quaternion is positive and below \<open>eps\<close>, the test
  \<open>cos_theta < eps\<close> selects \<open>atan2(-sin_theta, -cos_theta)\<close>, and the third component of the
  result is below \<open>- pi\<close>.
\<close>

theorem round_trip_near_half_turn:
  "\<exists>r. axis_angle_round_trip (Tensor [1, 3] [0, 0, pi - eps]) = Returns (Tensor [1, 3] [0, 0, r])
        \<and> r < - pi"
proof -
  define th where "th = pi - eps"
  define lam where "lam = th / (th + eps)"
  define D where "D = cos th + lam * lam * (1 - cos th)"
  define t where "t = 1 - 2 * cos th + D"
  note n = near_pi_numbers [OF th_def lam_def D_def t_def]
  have M: "angle_axis_to_rotation_matrix_row (0, 0, th) =
             [[cos th, - (lam * sin th), 0, 0], [lam * sin th, cos th, 0, 0],
              [0, 0, D, 0], [0, 0, 0, 1]]"
    unfolding D_def lam_def by (rule half_turn_matrix [OF n(1)])
  have A: "angle_axis_to_rotation_matrix (Tensor [1, 3] [0, 0, th])
             = Returns (Tensor [1, 4, 4]
                 [cos th, - (lam * sin th), 0, 0, lam * sin th, cos th, 0, 0,
                  0, 0, D, 0, 0, 0, 0, 1])"
    unfolding batch_of_one_axis_angle M by (simp only: concat.simps append.simps)
  have B: "rotation_matrix_to_quaternion (Tensor [1, 4, 4]
                 [cos th, - (lam * sin th), 0, 0, lam * sin th, cos th, 0, 0,
                  0, 0, D, 0, 0, 0, 0, 1])
             = Returns (Tensor [1, 4]
                 [2 * (lam * sin th) / sqrt t * (1 / 2), 0, 0, t / sqrt t * (1 / 2)])"
    unfolding t_def by (rule batch_of_one_matrix [OF z_pivot_row [OF n(2,3)]])
  obtain r where r: "quaternion_to_angle_axis_row
       (2 * (lam * sin th) / sqrt t * (1 / 2), 0, 0, t / sqrt t * (1 / 2)) = Some (0, 0, r)"
      "r < - pi"
    using near_half_turn_row [OF n(5,6,7)] by blast
  note C = batch_of_one_quaternion [OF r(1)]
  have "axis_angle_round_trip (Tensor [1, 3] [0, 0, th]) = Returns (Tensor [1, 3] [0, 0, r])"
    unfolding axis_angle_round_trip_def rotation_matrix_to_angle_axis_def A outcome.case B C ..
  then show ?thesis using r(2) unfolding th_def by blast
qed

end
